theory Spec2Isabelle
  imports Complex_Main
begin

section \<open>Configuration (config/gameConfig.js)\<close>

text \<open>
  Only the fields the hooks and the live feed read: \<open>gameConfig.maxLanes\<close> and
  \<open>gameConfig.ui.{historyLimit, liveFeedLimit, refreshInterval}\<close>.
\<close>

record game_config =
  maxLanes :: nat
  historyLimit :: nat
  liveFeedLimit :: nat
  refreshInterval :: nat

definition gameConfig :: game_config where
  "gameConfig = \<lparr>maxLanes = 5, historyLimit = 100, liveFeedLimit = 20, refreshInterval = 5000\<rparr>"

section \<open>The WebSocket hook (hooks/useWebSocket.js)\<close>

text \<open>
  An inbound frame after \<open>JSON.parse\<close> and the \<open>switch (data.type)\<close>. \<open>Malformed\<close>
  is a frame on which the handler's \<open>try\<close> block throws (text that is not JSON, or a
  \<open>history\<close> whose payload has no \<open>slice\<close>): the \<open>catch\<close> logs and changes nothing.
\<close>

datatype 'a message = Crossing 'a | History "'a list" | Stats | Ping | Unknown string | Malformed

text \<open>What the hook sends: the pong reply, or a consumer's message through \<open>sendMessage\<close>.\<close>

datatype 'm frame = Pong | Client 'm

text \<open>\<open>WebSocket.readyState\<close>.\<close>

datatype readyState = CONNECTING | OPEN | CLOSING | CLOSED

text \<open>
  The hook's React state (\<open>crossings\<close>, \<open>connected\<close>, \<open>error\<close>) and refs (\<open>wsRef\<close>,
  \<open>reconnectTimeoutRef\<close>, \<open>reconnectAttemptsRef\<close>), and the part of the browser the
  handlers act on: every \<open>WebSocket\<close> object built so far with its ready state
  (a socket is named by its index here), the pending timeouts as (id, delay), the number
  of \<open>setTimeout\<close> calls made (timer ids are 1, 2, ...: positive, hence truthy), the
  delays passed to \<open>setTimeout\<close> in order, the frames sent as (socket, frame), and
  whether \<open>new WebSocket(wsUrl)\<close> accepts the URL built from \<open>window.location\<close>.
\<close>

record ('a, 'm) ws_hook =
  crossings :: "'a list"
  connected_state :: bool
  error :: "string option"
  wsRef :: "nat option"
  reconnectTimeoutRef :: "nat option"
  reconnectAttemptsRef :: nat
  sockets :: "readyState list"
  timeouts :: "(nat \<times> nat) list"
  timeoutCount :: nat
  scheduled :: "nat list"
  sent :: "(nat \<times> 'm frame) list"
  urlAccepted :: bool

definition maxReconnectAttempts :: nat where
  "maxReconnectAttempts = 5"

definition initial :: "bool \<Rightarrow> ('a, 'm) ws_hook" where
  "initial accepted = \<lparr>crossings = [], connected_state = False, error = None, wsRef = None,
     reconnectTimeoutRef = None, reconnectAttemptsRef = 0, sockets = [], timeouts = [],
     timeoutCount = 0, scheduled = [], sent = [], urlAccepted = accepted\<rparr>"

definition readyStateOf :: "('a, 'm) ws_hook \<Rightarrow> nat \<Rightarrow> readyState option" where
  "readyStateOf s i = (if i < length (sockets s) then Some (sockets s ! i) else None)"

text \<open>\<open>setTimeout(callback, delay)\<close>: a fresh positive id, returned with the new state.\<close>

definition setTimeout :: "nat \<Rightarrow> ('a, 'm) ws_hook \<Rightarrow> nat \<times> ('a, 'm) ws_hook" where
  "setTimeout delay s =
     (let t = Suc (timeoutCount s)
      in (t, s\<lparr>timeouts := timeouts s @ [(t, delay)], timeoutCount := t,
                scheduled := scheduled s @ [delay]\<rparr>))"

definition clearTimeout :: "nat \<Rightarrow> ('a, 'm) ws_hook \<Rightarrow> ('a, 'm) ws_hook" where
  "clearTimeout t s = s\<lparr>timeouts := filter (\<lambda>p. fst p \<noteq> t) (timeouts s)\<rparr>"

text \<open>
  \<open>socket.close(code, reason)\<close>: an open or connecting socket starts closing, its close
  event comes later; on a closing or closed socket the call does nothing.
\<close>

definition ws_close :: "nat \<Rightarrow> ('a, 'm) ws_hook \<Rightarrow> ('a, 'm) ws_hook" where
  "ws_close i s =
     (if readyStateOf s i = Some CONNECTING \<or> readyStateOf s i = Some OPEN
      then s\<lparr>sockets := (sockets s)[i := CLOSING]\<rparr> else s)"

text \<open>
  \<open>connect\<close>: the attempt ceiling first, then \<open>new WebSocket(wsUrl)\<close> inside \<open>try\<close>; the new
  socket becomes \<open>wsRef.current\<close> and gets the four handlers below. Nothing looks at the
  socket \<open>wsRef.current\<close> held before.
\<close>

definition connect :: "('a, 'm) ws_hook \<Rightarrow> ('a, 'm) ws_hook" where
  "connect s =
     (if reconnectAttemptsRef s \<ge> maxReconnectAttempts
      then s\<lparr>error := Some ''Max reconnection attempts reached. Please refresh the page.''\<rparr>
      else if \<not> urlAccepted s
      then s\<lparr>error := Some ''Failed to establish connection''\<rparr>
      else s\<lparr>wsRef := Some (length (sockets s)), sockets := sockets s @ [CONNECTING]\<rparr>)"

definition onopen :: "('a, 'm) ws_hook \<Rightarrow> ('a, 'm) ws_hook" where
  "onopen s = s\<lparr>connected_state := True, error := None, reconnectAttemptsRef := 0\<rparr>"

definition onmessage :: "game_config \<Rightarrow> 'a message \<Rightarrow> ('a, 'm) ws_hook \<Rightarrow> ('a, 'm) ws_hook" where
  "onmessage cfg m s =
     (case m of
        Crossing payload \<Rightarrow> s\<lparr>crossings := take (liveFeedLimit cfg) (payload # crossings s)\<rparr>
      | History payload \<Rightarrow> s\<lparr>crossings := take (liveFeedLimit cfg) payload\<rparr>
      | Stats \<Rightarrow> s
      | Ping \<Rightarrow>
          (case wsRef s of
             None \<Rightarrow> s
           | Some c \<Rightarrow> if readyStateOf s c = Some OPEN then s\<lparr>sent := sent s @ [(c, Pong)]\<rparr> else s)
      | Unknown ty \<Rightarrow> s
      | Malformed \<Rightarrow> s)"

definition onerror :: "('a, 'm) ws_hook \<Rightarrow> ('a, 'm) ws_hook" where
  "onerror s = s\<lparr>error := Some ''Connection error occurred''\<rparr>"

definition onclose :: "('a, 'm) ws_hook \<Rightarrow> ('a, 'm) ws_hook" where
  "onclose s =
     (let s1 = s\<lparr>connected_state := False\<rparr>
      in if reconnectAttemptsRef s1 < maxReconnectAttempts
         then (let delay = min (1000 * 2 ^ reconnectAttemptsRef s1) 30000;
                   (t, s2) = setTimeout delay s1
               in s2\<lparr>reconnectTimeoutRef := Some t\<rparr>)
         else s1)"

text \<open>The callback handed to \<open>setTimeout\<close> in \<open>onclose\<close>.\<close>

definition reconnectCallback :: "('a, 'm) ws_hook \<Rightarrow> ('a, 'm) ws_hook" where
  "reconnectCallback s = connect (s\<lparr>reconnectAttemptsRef := reconnectAttemptsRef s + 1\<rparr>)"

definition disconnect :: "('a, 'm) ws_hook \<Rightarrow> ('a, 'm) ws_hook" where
  "disconnect s =
     (let s1 = (case reconnectTimeoutRef s of
                  None \<Rightarrow> s
                | Some t \<Rightarrow> if t \<noteq> 0 then clearTimeout t s else s);
          s2 = (case wsRef s1 of
                  None \<Rightarrow> s1
                | Some c \<Rightarrow> (ws_close c s1)\<lparr>wsRef := None\<rparr>)
      in s2\<lparr>connected_state := False\<rparr>)"

definition sendMessage :: "'m \<Rightarrow> ('a, 'm) ws_hook \<Rightarrow> ('a, 'm) ws_hook" where
  "sendMessage m s =
     (case wsRef s of
        None \<Rightarrow> s
      | Some c \<Rightarrow> if readyStateOf s c = Some OPEN then s\<lparr>sent := sent s @ [(c, Client m)]\<rparr> else s)"

definition clearCrossings :: "('a, 'm) ws_hook \<Rightarrow> ('a, 'm) ws_hook" where
  "clearCrossings s = s\<lparr>crossings := []\<rparr>"

text \<open>
  What can happen to a mounted hook: a call of one of the functions it returns, an event
  of a socket it built, or a pending timeout coming due. The browser delivers an open
  event to a connecting socket only, a message to an open socket only, and a close event
  once, to a socket that is not closed yet; each event runs the handler \<open>connect\<close>
  attached to that socket.
\<close>

datatype ('a, 'm) event =
    CallConnect
  | CallDisconnect
  | CallSend 'm
  | CallClear
  | SockOpen nat
  | SockMessage nat "'a message"
  | SockError nat
  | SockClose nat
  | TimerFires nat

definition step :: "game_config \<Rightarrow> ('a, 'm) event \<Rightarrow> ('a, 'm) ws_hook \<Rightarrow> ('a, 'm) ws_hook" where
  "step cfg e s =
     (case e of
        CallConnect \<Rightarrow> connect s
      | CallDisconnect \<Rightarrow> disconnect s
      | CallSend m \<Rightarrow> sendMessage m s
      | CallClear \<Rightarrow> clearCrossings s
      | SockOpen i \<Rightarrow>
          if readyStateOf s i = Some CONNECTING
          then onopen (s\<lparr>sockets := (sockets s)[i := OPEN]\<rparr>) else s
      | SockMessage i m \<Rightarrow>
          if readyStateOf s i = Some OPEN then onmessage cfg m s else s
      | SockError i \<Rightarrow>
          if readyStateOf s i \<noteq> None \<and> readyStateOf s i \<noteq> Some CLOSED then onerror s else s
      | SockClose i \<Rightarrow>
          if readyStateOf s i \<noteq> None \<and> readyStateOf s i \<noteq> Some CLOSED
          then onclose (s\<lparr>sockets := (sockets s)[i := CLOSED]\<rparr>) else s
      | TimerFires t \<Rightarrow>
          if t \<in> fst ` set (timeouts s)
          then reconnectCallback (s\<lparr>timeouts := filter (\<lambda>p. fst p \<noteq> t) (timeouts s)\<rparr>)
          else s)"

fun run :: "game_config \<Rightarrow> ('a, 'm) event list \<Rightarrow> ('a, 'm) ws_hook \<Rightarrow> ('a, 'm) ws_hook" where
  "run cfg [] s = s"
| "run cfg (e # es) s = run cfg es (step cfg e s)"

text \<open>The channels that exist: sockets that are connecting or open.\<close>

definition liveChannels :: "('a, 'm) ws_hook \<Rightarrow> nat" where
  "liveChannels s = length (filter (\<lambda>r. r = CONNECTING \<or> r = OPEN) (sockets s))"




section \<open>JavaScript numbers\<close>

text \<open>
  A JavaScript number is an IEEE 754 binary64 value. A finite one is modelled by the real
  it denotes; the sign of a zero is not kept (it shows only when a zero divides, and the
  code modelled here divides by positive numbers only). Every arithmetic operation
  returns the exact result rounded to the nearest binary64 value, ties to the even
  significand: \<open>rnd\<close> does that rounding for a real, with the exponent of the value
  (at least \<open>- 1022\<close>, where the subnormal numbers begin) and a significand of 53 bits;
  \<open>round64\<close> adds the overflow to an infinity.
\<close>

definition pow2 :: "int \<Rightarrow> real" where
  "pow2 e = (if 0 \<le> e then 2 ^ nat e else 1 / 2 ^ nat (- e))"

definition roundHalfEven :: "real \<Rightarrow> int" where
  "roundHalfEven q =
     (let f = \<lfloor>q\<rfloor>
      in if q - real_of_int f < 1 / 2 then f
         else if 1 / 2 < q - real_of_int f then f + 1
         else if even f then f else f + 1)"

definition exponent :: "real \<Rightarrow> int" where
  "exponent x = max \<lfloor>log 2 \<bar>x\<bar>\<rfloor> (- 1022)"

definition rnd :: "real \<Rightarrow> real" where
  "rnd x =
     (if x = 0 then 0
      else real_of_int (roundHalfEven (x / pow2 (exponent x - 52))) * pow2 (exponent x - 52))"

definition isDouble :: "real \<Rightarrow> bool" where
  "isDouble x = (rnd x = x \<and> \<bar>x\<bar> < 2 ^ 1024)"

datatype jsnum = Finite real | PosInfinity | NegInfinity | NaN

definition round64 :: "real \<Rightarrow> jsnum" where
  "round64 x =
     (if 2 ^ 1024 \<le> \<bar>rnd x\<bar> then (if 0 < x then PosInfinity else NegInfinity)
      else Finite (rnd x))"

text \<open>The operators \<open>/\<close>, \<open>*\<close> and \<open>> 0\<close> on numbers.\<close>

fun jsdiv :: "jsnum \<Rightarrow> jsnum \<Rightarrow> jsnum" where
  "jsdiv NaN b = NaN"
| "jsdiv a NaN = NaN"
| "jsdiv (Finite x) (Finite y) =
     (if y = 0 then (if x = 0 then NaN else if 0 < x then PosInfinity else NegInfinity)
      else round64 (x / y))"
| "jsdiv (Finite x) b = Finite 0"
| "jsdiv PosInfinity (Finite y) = (if 0 \<le> y then PosInfinity else NegInfinity)"
| "jsdiv NegInfinity (Finite y) = (if 0 \<le> y then NegInfinity else PosInfinity)"
| "jsdiv a b = NaN"

fun jsmul :: "jsnum \<Rightarrow> jsnum \<Rightarrow> jsnum" where
  "jsmul NaN b = NaN"
| "jsmul a NaN = NaN"
| "jsmul (Finite x) (Finite y) = round64 (x * y)"
| "jsmul (Finite x) PosInfinity =
     (if x = 0 then NaN else if 0 < x then PosInfinity else NegInfinity)"
| "jsmul (Finite x) NegInfinity =
     (if x = 0 then NaN else if 0 < x then NegInfinity else PosInfinity)"
| "jsmul PosInfinity (Finite y) =
     (if y = 0 then NaN else if 0 < y then PosInfinity else NegInfinity)"
| "jsmul NegInfinity (Finite y) =
     (if y = 0 then NaN else if 0 < y then NegInfinity else PosInfinity)"
| "jsmul PosInfinity PosInfinity = PosInfinity"
| "jsmul NegInfinity NegInfinity = PosInfinity"
| "jsmul a b = NegInfinity"

fun gtZero :: "jsnum \<Rightarrow> bool" where
  "gtZero (Finite x) = (0 < x)"
| "gtZero PosInfinity = True"
| "gtZero a = False"

text \<open>
  A property of a parsed JSON object holds a number or is missing; reading a missing
  property gives \<open>undefined\<close>, which arithmetic and comparison turn into \<open>NaN\<close>.
\<close>

fun toNumber :: "jsnum option \<Rightarrow> jsnum" where
  "toNumber None = NaN"
| "toNumber (Some a) = a"

text \<open>
  \<open>x.toFixed(d)\<close> is a string. For a finite \<open>x\<close> of magnitude below \<open>10 ^ 21\<close> it is an
  optional minus sign (when \<open>x < 0\<close>) and the decimal numeral of \<open>n / 10 ^ d\<close> with \<open>d\<close>
  digits after the point, \<open>n\<close> the integer nearest to \<open>\<bar>x\<bar> * 10 ^ d\<close>, the larger on a tie:
  \<open>Fixed neg d n\<close> stands for that string. From \<open>10 ^ 21\<close> on it is the sign and the
  number's ordinary, exponent form (\<open>Scientific\<close>); for the other values it is their name.
\<close>

datatype numstr = Fixed bool nat nat | Literal string | Scientific bool real

fun toFixed :: "nat \<Rightarrow> jsnum \<Rightarrow> numstr" where
  "toFixed d NaN = Literal ''NaN''"
| "toFixed d PosInfinity = Literal ''Infinity''"
| "toFixed d NegInfinity = Literal ''-Infinity''"
| "toFixed d (Finite x) =
     (if 10 ^ 21 \<le> \<bar>x\<bar> then Scientific (x < 0) \<bar>x\<bar>
      else Fixed (x < 0) d (nat \<lfloor>\<bar>x\<bar> * 10 ^ d + 1 / 2\<rfloor>))"

text \<open>The number a \<open>Fixed\<close> string spells.\<close>

fun fixedValue :: "numstr \<Rightarrow> real option" where
  "fixedValue (Fixed neg d n) = Some ((if neg then - 1 else 1) * real n / 10 ^ d)"
| "fixedValue s = None"

text \<open>A JavaScript value that is a number or a \<open>toFixed\<close> string.\<close>

datatype jsvalue = Num jsnum | Str numstr

section \<open>The live feed (components/LiveFeed.jsx)\<close>

datatype outcome = Crossed | Hit

text \<open>
  The event \<open>generateMockCrossing\<close> returns. \<open>event_id\<close> holds the two interpolated parts
  of the id string \<open>cr_<Date.now()>_<random suffix>\<close>; \<open>timestamp\<close> is the instant in
  milliseconds that the ISO string denotes.
\<close>

record crossing_event =
  event_id :: "int \<times> string"
  timestamp :: int
  lanesCrossed :: nat
  outcome :: outcome
  multiplier :: real
  betAmount :: numstr

text \<open>
  What one call reads from the environment: the three \<open>Math.random()\<close> draws (each a
  binary64 value in \<open>[0, 1)\<close>), the random id suffix, and the clock, once for the id and
  once for the timestamp. A decimal literal of the source is read as the number it
  spells: \<open>0.7\<close> is only compared with draws, and no binary64 value lies between the
  one nearest to 0.7 and 0.7 itself; a table entry is stored and printed as its literal.
\<close>

record mock_entropy =
  randLanes :: real
  randHit :: real
  randBet :: real
  randSuffix :: string
  idClock :: int
  clock :: int

definition unitDraw :: "real \<Rightarrow> bool" where
  "unitDraw r = (isDouble r \<and> 0 \<le> r \<and> r < 1)"

definition validEntropy :: "mock_entropy \<Rightarrow> bool" where
  "validEntropy e = (unitDraw (randLanes e) \<and> unitDraw (randHit e) \<and> unitDraw (randBet e))"

definition multiplierTable :: "real list" where
  "multiplierTable = [1.2, 1.5, 2.0, 3.5, 8.0]"

definition generateMockCrossing :: "mock_entropy \<Rightarrow> crossing_event" where
  "generateMockCrossing e =
     (let lanes = nat \<lfloor>rnd (randLanes e * 6)\<rfloor>;
          wasHit = (lanes < 5 \<and> randHit e > 0.7);
          mult = (if lanes = 0 then 0 else multiplierTable ! (lanes - 1))
      in \<lparr>event_id = (idClock e, randSuffix e),
          timestamp = clock e,
          lanesCrossed = lanes,
          outcome = (if wasHit then Hit else Crossed),
          multiplier = (if wasHit then 0 else mult),
          betAmount = toFixed 2 (Finite (rnd (rnd (randBet e * 10) + 0.5)))\<rparr>)"

text \<open>
  One element of the initial mock data: a generated event whose timestamp is replaced by
  \<open>new Date(Date.now() - Math.random() * 60000)\<close>; \<open>Date\<close> truncates its argument to
  whole milliseconds.
\<close>

record seed_entropy =
  seedMock :: mock_entropy
  seedClock :: int
  randAge :: real

definition toInteger :: "real \<Rightarrow> int" where
  "toInteger x = (if x < 0 then \<lceil>x\<rceil> else \<lfloor>x\<rfloor>)"

definition seedCrossing :: "seed_entropy \<Rightarrow> crossing_event" where
  "seedCrossing e =
     (generateMockCrossing (seedMock e))
       \<lparr>timestamp := toInteger (rnd (real_of_int (seedClock e) - rnd (randAge e * 60000)))\<rparr>"

text \<open>
  The component: its state (\<open>crossings\<close>, \<open>isPaused\<close>), its props (\<open>crossings\<close>, which may
  be missing, and \<open>connected\<close>) and the interval the second effect holds, by its period
  (\<open>None\<close> when no interval is set).
\<close>

record live_feed =
  feedCrossings :: "crossing_event list"
  isPaused :: bool
  externalCrossings :: "crossing_event list option"
  connectedProp :: bool
  demoInterval :: "real option"

text \<open>
  First effect, on \<open>[externalCrossings]\<close>: fifteen mock events, newest first (the sort is
  stable), when the prop is missing or empty; the prop itself otherwise.
\<close>

definition initEffect :: "(nat \<Rightarrow> seed_entropy) \<Rightarrow> live_feed \<Rightarrow> live_feed" where
  "initEffect seeds s =
     (let initialData = map (\<lambda>i. seedCrossing (seeds i)) [0..<15];
          seeded = s\<lparr>feedCrossings := sort_key (\<lambda>c. - timestamp c) initialData\<rparr>
      in case externalCrossings s of
           None \<Rightarrow> seeded
         | Some ext \<Rightarrow> if length ext = 0 then seeded else s\<lparr>feedCrossings := ext\<rparr>)"

text \<open>
  Second effect, on \<open>[connected, isPaused]\<close>: its cleanup clears the interval of the run
  before; then it returns at once when connected or paused, and sets an interval of
  period \<open>3000 + Math.random() * 2000\<close> otherwise.
\<close>

definition tickEffect :: "real \<Rightarrow> live_feed \<Rightarrow> live_feed" where
  "tickEffect r s =
     (let s1 = s\<lparr>demoInterval := None\<rparr>
      in if connectedProp s1 \<or> isPaused s1 then s1
         else s1\<lparr>demoInterval := Some (rnd (3000 + rnd (r * 2000)))\<rparr>)"

text \<open>The interval's callback.\<close>

definition demoTick :: "game_config \<Rightarrow> mock_entropy \<Rightarrow> live_feed \<Rightarrow> live_feed" where
  "demoTick cfg e s =
     s\<lparr>feedCrossings := take (liveFeedLimit cfg) (generateMockCrossing e # feedCrossings s)\<rparr>"

definition mount :: "crossing_event list option \<Rightarrow> bool \<Rightarrow> (nat \<Rightarrow> seed_entropy) \<Rightarrow> real \<Rightarrow> live_feed" where
  "mount ext conn seeds r =
     tickEffect r (initEffect seeds
       \<lparr>feedCrossings = [], isPaused = False, externalCrossings = ext,
        connectedProp = conn, demoInterval = None\<rparr>)"

text \<open>
  What can happen to the mounted component: the interval comes due (the callback runs
  only if an interval is set), a prop arrives changed, or the pause button is clicked.
  An effect runs again when one of its dependencies changed.
\<close>

datatype feed_event =
    Tick mock_entropy
  | NewCrossings "crossing_event list option" "nat \<Rightarrow> seed_entropy"
  | NewConnected bool real
  | ClickPause real

definition feedStep :: "game_config \<Rightarrow> feed_event \<Rightarrow> live_feed \<Rightarrow> live_feed" where
  "feedStep cfg ev s =
     (case ev of
        Tick e \<Rightarrow> if demoInterval s = None then s else demoTick cfg e s
      | NewCrossings ext seeds \<Rightarrow> initEffect seeds (s\<lparr>externalCrossings := ext\<rparr>)
      | NewConnected c r \<Rightarrow>
          if c = connectedProp s then s else tickEffect r (s\<lparr>connectedProp := c\<rparr>)
      | ClickPause r \<Rightarrow> tickEffect r (s\<lparr>isPaused := \<not> isPaused s\<rparr>))"

fun feedRun :: "game_config \<Rightarrow> feed_event list \<Rightarrow> live_feed \<Rightarrow> live_feed" where
  "feedRun cfg [] s = s"
| "feedRun cfg (ev # evs) s = feedRun cfg evs (feedStep cfg ev s)"

section \<open>The statistics hook (hooks/useStats.js)\<close>

text \<open>
  How one \<open>fetch\<close> ends: it rejects with a message, or it resolves to a response with a
  status and a body, whose \<open>json()\<close> rejects with a message or yields the data.
\<close>

datatype 'd fetched = Rejected string | Response nat "string + 'd"

definition ok :: "nat \<Rightarrow> bool" where
  "ok status = (200 \<le> status \<and> status \<le> 299)"

fun failed :: "'d fetched \<Rightarrow> bool" where
  "failed (Rejected m) = True"
| "failed (Response status (Inl m)) = True"
| "failed (Response status (Inr d)) = (\<not> ok status)"

definition digit :: "nat \<Rightarrow> char" where
  "digit n = ''0123456789'' ! n"

fun decimal :: "nat \<Rightarrow> string" where
  "decimal n = (if n < 10 then [digit n] else decimal (n div 10) @ [digit (n mod 10)])"

declare decimal.simps [simp del]

record ('s, 'l, 'h) use_stats =
  stats :: "'s option"
  laneStats :: "'l option"
  history :: "'h list"
  loading :: bool
  statsError :: "string option"

definition statsInitial :: "('s, 'l, 'h) use_stats" where
  "statsInitial = \<lparr>stats = None, laneStats = None, history = [], loading = True, statsError = None\<rparr>"

definition fetchStats :: "'s fetched \<Rightarrow> ('s, 'l, 'h) use_stats \<Rightarrow> ('s, 'l, 'h) use_stats" where
  "fetchStats r s =
     (case r of
        Rejected m \<Rightarrow> s\<lparr>statsError := Some m\<rparr>
      | Response status body \<Rightarrow>
          if \<not> ok status then s\<lparr>statsError := Some (''HTTP error! status: '' @ decimal status)\<rparr>
          else (case body of
                  Inl m \<Rightarrow> s\<lparr>statsError := Some m\<rparr>
                | Inr data \<Rightarrow> s\<lparr>stats := Some data, statsError := None\<rparr>))"

definition fetchLaneStats :: "'l fetched \<Rightarrow> ('s, 'l, 'h) use_stats \<Rightarrow> ('s, 'l, 'h) use_stats" where
  "fetchLaneStats r s =
     (case r of
        Rejected m \<Rightarrow> s
      | Response status body \<Rightarrow>
          if \<not> ok status then s
          else (case body of Inl m \<Rightarrow> s | Inr data \<Rightarrow> s\<lparr>laneStats := Some data\<rparr>))"

definition fetchHistory :: "'h list fetched \<Rightarrow> ('s, 'l, 'h) use_stats \<Rightarrow> ('s, 'l, 'h) use_stats" where
  "fetchHistory r s =
     (case r of
        Rejected m \<Rightarrow> s
      | Response status body \<Rightarrow>
          if \<not> ok status then s
          else (case body of Inl m \<Rightarrow> s | Inr data \<Rightarrow> s\<lparr>history := data\<rparr>))"

text \<open>
  \<open>refetch\<close>: the three fetches of \<open>Promise.all\<close> write different fields, so the order in
  which they settle does not show.
\<close>

definition refetch ::
  "'s fetched \<Rightarrow> 'l fetched \<Rightarrow> 'h list fetched \<Rightarrow> ('s, 'l, 'h) use_stats \<Rightarrow> ('s, 'l, 'h) use_stats" where
  "refetch r1 r2 r3 s =
     (fetchHistory r3 (fetchLaneStats r2 (fetchStats r1 (s\<lparr>loading := True\<rparr>))))\<lparr>loading := False\<rparr>"

text \<open>
  The properties of a snapshot that \<open>derivedStats\<close> reads, each a number or missing, and
  the object it builds: the snapshot's own properties and the two derived ones.
\<close>

record stats_snapshot =
  totalCrossings :: "jsnum option"
  successfulCrossings :: "jsnum option"
  totalRounds :: "jsnum option"
  totalLanesCrossed :: "jsnum option"

record derived_stats = stats_snapshot +
  successRate :: jsvalue
  averageLanes :: jsvalue

definition derivedStats :: "stats_snapshot option \<Rightarrow> derived_stats option" where
  "derivedStats st =
     (case st of
        None \<Rightarrow> None
      | Some v \<Rightarrow>
          Some (stats_snapshot.extend v
            (derived_stats.fields
              (if gtZero (toNumber (totalCrossings v))
               then Str (toFixed 1
                      (jsmul (jsdiv (toNumber (successfulCrossings v)) (toNumber (totalCrossings v)))
                         (Finite 100)))
               else Num (Finite 0))
              (if gtZero (toNumber (totalRounds v))
               then Str (toFixed 2
                      (jsdiv (toNumber (totalLanesCrossed v)) (toNumber (totalRounds v))))
               else Num (Finite 0)))))"

section \<open>The feed buffer\<close>


lemma take_append_take: "take n (xs @ take n ys) = take n (xs @ ys)"
  by (simp add: take_append min_def)

lemma prepend_fold_take:
  "take n (foldl (\<lambda>b p. take n (p # b)) b ps) = take n (rev ps @ b)"
proof (induction ps arbitrary: b)
  case Nil
  show ?case by simp
next
  case (Cons p ps)
  have "take n (foldl (\<lambda>b p. take n (p # b)) (take n (p # b)) ps) = take n (rev ps @ take n (p # b))"
    by (rule Cons.IH)
  also have "\<dots> = take n (rev ps @ p # b)"
    by (rule take_append_take)
  finally show ?case by simp
qed

lemma prepend_fold_bounded:
  "ps \<noteq> [] \<Longrightarrow> take n (foldl (\<lambda>b p. take n (p # b)) b ps) = foldl (\<lambda>b p. take n (p # b)) b ps"
  by (induction ps rule: rev_induct) simp_all

lemma prepend_fold:
  "ps \<noteq> [] \<Longrightarrow> foldl (\<lambda>b p. take n (p # b)) b ps = take n (rev ps @ b)"
  using prepend_fold_bounded [of ps n b] prepend_fold_take [of n b ps] by simp

lemma prepend_fold_empty:
  "foldl (\<lambda>b p. take n (p # b)) [] ps = take n (rev ps)"
  by (cases "ps = []") (simp_all add: prepend_fold)

lemma crossings_fold:
  "crossings (foldl (\<lambda>t p. onmessage cfg (Crossing p) t) s ps)
     = foldl (\<lambda>b p. take (liveFeedLimit cfg) (p # b)) (crossings s) ps"
  by (induction ps arbitrary: s) (simp_all add: onmessage_def)

lemma feed_fold:
  "demoInterval s \<noteq> None \<Longrightarrow>
   feedCrossings (feedRun cfg (map Tick es) s)
     = foldl (\<lambda>b p. take (liveFeedLimit cfg) (p # b)) (feedCrossings s) (map generateMockCrossing es)
   \<and> demoInterval (feedRun cfg (map Tick es) s) = demoInterval s"
  by (induction es arbitrary: s) (auto simp add: feedStep_def demoTick_def)

text \<open>
  C5. Handling the \<open>crossing\<close> messages \<open>ps\<close> in order, from an empty buffer, leaves the
  \<open>min k N\<close> payloads received last, newest first (\<open>k\<close> the number of messages, \<open>N\<close> the
  limit \<open>liveFeedLimit\<close>); from any buffer, once at least \<open>N\<close> have been handled, the
  buffer is exactly the \<open>N\<close> received last, so older entries are gone. The demo interval
  of the live feed fills its buffer the same way with the events it generates.
\<close>

theorem feed_keeps_newest:
  "crossings (foldl (\<lambda>t p. onmessage cfg (Crossing p) t) (s\<lparr>crossings := []\<rparr>) ps)
     = take (liveFeedLimit cfg) (rev ps)
   \<and> length (crossings (foldl (\<lambda>t p. onmessage cfg (Crossing p) t) (s\<lparr>crossings := []\<rparr>) ps))
     = min (length ps) (liveFeedLimit cfg)
   \<and> (liveFeedLimit cfg \<le> length ps \<and> ps \<noteq> [] \<longrightarrow>
        crossings (foldl (\<lambda>t p. onmessage cfg (Crossing p) t) s ps)
          = take (liveFeedLimit cfg) (rev ps))
   \<and> (demoInterval f \<noteq> None \<longrightarrow>
        feedCrossings (feedRun cfg (map Tick es) (f\<lparr>feedCrossings := []\<rparr>))
          = take (liveFeedLimit cfg) (rev (map generateMockCrossing es)))"
proof -
  have a: "crossings (foldl (\<lambda>t p. onmessage cfg (Crossing p) t) (s\<lparr>crossings := []\<rparr>) ps)
     = take (liveFeedLimit cfg) (rev ps)"
    by (simp add: crossings_fold prepend_fold_empty)
  have b: "length (crossings (foldl (\<lambda>t p. onmessage cfg (Crossing p) t) (s\<lparr>crossings := []\<rparr>) ps))
     = min (length ps) (liveFeedLimit cfg)"
    by (simp only: a) simp
  have c: "crossings (foldl (\<lambda>t p. onmessage cfg (Crossing p) t) s ps)
          = take (liveFeedLimit cfg) (rev ps)"
    if "liveFeedLimit cfg \<le> length ps" "ps \<noteq> []"
    using that by (simp add: crossings_fold prepend_fold)
  have d: "feedCrossings (feedRun cfg (map Tick es) (f\<lparr>feedCrossings := []\<rparr>))
          = take (liveFeedLimit cfg) (rev (map generateMockCrossing es))"
    if "demoInterval f \<noteq> None"
    using that feed_fold [of "f\<lparr>feedCrossings := []\<rparr>" cfg es]
    by (simp add: prepend_fold_empty)
  from a b c d show ?thesis by blast
qed

theorem feed_keeps_newest_witness:
  "crossings (foldl (\<lambda>t p. onmessage (gameConfig\<lparr>liveFeedLimit := 2\<rparr>) (Crossing p) t)
      ((initial True :: (nat, unit) ws_hook)\<lparr>crossings := [7, 8]\<rparr>) [1, 2, 3]) = [3, 2]
   \<and> feedCrossings (feedRun (gameConfig\<lparr>liveFeedLimit := 2\<rparr>)
        (map Tick [\<lparr>randLanes = 3 / 8, randHit = 1 / 2, randBet = 1 / 4, randSuffix = ''k3x'', idClock = 1000,
           clock = 1000\<rparr>,
                   \<lparr>randLanes = 7 / 8, randHit = 1 / 8, randBet = 3 / 4, randSuffix = ''q0z'', idClock = 4000,
           clock = 4000\<rparr>,
                   \<lparr>randLanes = 1 / 8, randHit = 3 / 4, randBet = 1 / 2, randSuffix = ''m7c'', idClock = 8000,
           clock = 8000\<rparr>])
        (\<lparr>feedCrossings = [], isPaused = False, externalCrossings = None,
          connectedProp = False, demoInterval = Some 3000\<rparr>\<lparr>feedCrossings := []\<rparr>))
     = [generateMockCrossing
          \<lparr>randLanes = 1 / 8, randHit = 3 / 4, randBet = 1 / 2, randSuffix = ''m7c'', idClock = 8000,
           clock = 8000\<rparr>,
        generateMockCrossing
          \<lparr>randLanes = 7 / 8, randHit = 1 / 8, randBet = 3 / 4, randSuffix = ''q0z'', idClock = 4000,
           clock = 4000\<rparr>]"
  using feed_keeps_newest [of "gameConfig\<lparr>liveFeedLimit := 2\<rparr>"
      "(initial True :: (nat, unit) ws_hook)\<lparr>crossings := [7, 8]\<rparr>" "[1, 2, 3]"
      "\<lparr>feedCrossings = [], isPaused = False, externalCrossings = None,
          connectedProp = False, demoInterval = Some 3000\<rparr>"
      "[\<lparr>randLanes = 3 / 8, randHit = 1 / 2, randBet = 1 / 4, randSuffix = ''k3x'', idClock = 1000,
           clock = 1000\<rparr>,
        \<lparr>randLanes = 7 / 8, randHit = 1 / 8, randBet = 3 / 4, randSuffix = ''q0z'', idClock = 4000,
           clock = 4000\<rparr>,
        \<lparr>randLanes = 1 / 8, randHit = 3 / 4, randBet = 1 / 2, randSuffix = ''m7c'', idClock = 8000,
           clock = 8000\<rparr>]"]
  by (simp add: gameConfig_def)

text \<open>
  C6. A \<open>history\<close> message replaces the buffer, whatever it held, by the first \<open>min M N\<close>
  elements of its payload in the payload's order (\<open>M\<close> the payload's length, \<open>N\<close> the
  limit).
\<close>

theorem history_replaces_feed:
  "crossings (onmessage cfg (History payload) s) = take (liveFeedLimit cfg) payload
   \<and> length (crossings (onmessage cfg (History payload) s)) = min (length payload) (liveFeedLimit cfg)
   \<and> crossings (onmessage cfg (History payload) s) = crossings (onmessage cfg (History payload) s')"
  by (simp add: onmessage_def)

section \<open>Reconnecting with backoff\<close>

lemmas hook_defs = step_def connect_def disconnect_def onopen_def onclose_def onmessage_def
  reconnectCallback_def setTimeout_def clearTimeout_def ws_close_def readyStateOf_def
  initial_def maxReconnectAttempts_def liveChannels_def Let_def



























section \<open>Disconnecting, connecting again, answering pings\<close>

text \<open>
  C2. What the hook does after \<open>disconnect()\<close>: with the socket open, \<open>disconnect\<close> clears
  the ref and any pending timeout and starts closing the socket; the socket's close event
  then runs the close handler, which schedules a retry of 1000 ms, and when that comes due
  \<open>connect\<close> builds a second socket, with no explicit call of \<open>connect\<close>. The same happens
  when \<open>disconnect\<close> is called while the socket is still connecting.
\<close>

theorem disconnect_close_reconnects:
  "wsRef (run gameConfig [CallConnect, SockOpen 0, CallDisconnect]
      (initial True :: (nat, unit) ws_hook)) = None
   \<and> timeouts (run gameConfig [CallConnect, SockOpen 0, CallDisconnect]
      (initial True :: (nat, unit) ws_hook)) = []
   \<and> sockets (run gameConfig [CallConnect, SockOpen 0, CallDisconnect]
      (initial True :: (nat, unit) ws_hook)) = [CLOSING]
   \<and> timeouts (run gameConfig [CallConnect, SockOpen 0, CallDisconnect, SockClose 0]
      (initial True :: (nat, unit) ws_hook)) = [(1, 1000)]
   \<and> sockets (run gameConfig [CallConnect, SockOpen 0, CallDisconnect, SockClose 0, TimerFires 1]
      (initial True :: (nat, unit) ws_hook)) = [CLOSED, CONNECTING]
   \<and> wsRef (run gameConfig [CallConnect, SockOpen 0, CallDisconnect, SockClose 0, TimerFires 1]
      (initial True :: (nat, unit) ws_hook)) = Some 1
   \<and> timeouts (run gameConfig [CallConnect, CallDisconnect, SockClose 0]
      (initial True :: (nat, unit) ws_hook)) = [(1, 1000)]"
  by (simp add: hook_defs)

text \<open>
  C3, as stated, fails: in a connected state with one channel, \<open>connect\<close> leaves two live
  channels, the open one and a new connecting one; likewise while connecting.
\<close>

theorem connect_again_second_channel:
  "connected_state (run gameConfig [CallConnect, SockOpen 0] (initial True :: (nat, unit) ws_hook))
   \<and> liveChannels (run gameConfig [CallConnect, SockOpen 0] (initial True :: (nat, unit) ws_hook)) = 1
   \<and> liveChannels (connect (run gameConfig [CallConnect, SockOpen 0]
        (initial True :: (nat, unit) ws_hook))) = 2
   \<and> sockets (connect (run gameConfig [CallConnect, SockOpen 0]
        (initial True :: (nat, unit) ws_hook))) = [OPEN, CONNECTING]
   \<and> liveChannels (connect (run gameConfig [CallConnect]
        (initial True :: (nat, unit) ws_hook))) = 2"
  by (simp add: hook_defs)

lemma liveChannels_connect:
  "reconnectAttemptsRef s < 5 \<Longrightarrow> urlAccepted s \<Longrightarrow> liveChannels (connect s) = Suc (liveChannels s)"
  by (simp add: connect_def liveChannels_def maxReconnectAttempts_def)

lemma readyStateOf_connect_old:
  "i < length (sockets s) \<Longrightarrow> readyStateOf (connect s) i = readyStateOf s i"
  by (simp add: connect_def readyStateOf_def nth_append)

text \<open>
  C3, amended. \<open>connect\<close> never changes the connected flag, the attempt counter, the feed,
  the pending timeouts or the ready state of a socket built before. Below the attempt
  ceiling, with the URL accepted, it adds one live channel, connecting, and makes it the
  current one, whatever the state was. With the URL rejected, or at the ceiling, it builds
  nothing and sets the error.
\<close>

theorem connect_adds_channel:
  "connected_state (connect s) = connected_state s
   \<and> reconnectAttemptsRef (connect s) = reconnectAttemptsRef s
   \<and> crossings (connect s) = crossings s
   \<and> timeouts (connect s) = timeouts s
   \<and> (\<forall>i. i < length (sockets s) \<longrightarrow> readyStateOf (connect s) i = readyStateOf s i)
   \<and> (reconnectAttemptsRef s < 5 \<and> urlAccepted s \<longrightarrow>
        liveChannels (connect s) = Suc (liveChannels s)
        \<and> wsRef (connect s) = Some (length (sockets s))
        \<and> readyStateOf (connect s) (length (sockets s)) = Some CONNECTING
        \<and> error (connect s) = error s)
   \<and> (reconnectAttemptsRef s < 5 \<and> \<not> urlAccepted s \<longrightarrow>
        sockets (connect s) = sockets s \<and> wsRef (connect s) = wsRef s
        \<and> error (connect s) = Some ''Failed to establish connection'')
   \<and> (5 \<le> reconnectAttemptsRef s \<longrightarrow>
        sockets (connect s) = sockets s \<and> wsRef (connect s) = wsRef s
        \<and> error (connect s) = Some ''Max reconnection attempts reached. Please refresh the page.'')"
proof -
  have a: "connected_state (connect s) = connected_state s
      \<and> reconnectAttemptsRef (connect s) = reconnectAttemptsRef s
      \<and> crossings (connect s) = crossings s
      \<and> timeouts (connect s) = timeouts s"
    by (simp add: connect_def)
  have b: "\<forall>i. i < length (sockets s) \<longrightarrow> readyStateOf (connect s) i = readyStateOf s i"
    by (simp add: readyStateOf_connect_old)
  have c: "liveChannels (connect s) = Suc (liveChannels s)
        \<and> wsRef (connect s) = Some (length (sockets s))
        \<and> readyStateOf (connect s) (length (sockets s)) = Some CONNECTING
        \<and> error (connect s) = error s"
    if "reconnectAttemptsRef s < 5" "urlAccepted s"
    using that by (simp add: liveChannels_connect) (simp add: connect_def maxReconnectAttempts_def readyStateOf_def)
  have d: "sockets (connect s) = sockets s \<and> wsRef (connect s) = wsRef s
        \<and> error (connect s) = Some ''Failed to establish connection''"
    if "reconnectAttemptsRef s < 5" "\<not> urlAccepted s"
    using that by (simp add: connect_def maxReconnectAttempts_def)
  have e: "sockets (connect s) = sockets s \<and> wsRef (connect s) = wsRef s
        \<and> error (connect s) = Some ''Max reconnection attempts reached. Please refresh the page.''"
    if "5 \<le> reconnectAttemptsRef s"
    using that by (simp add: connect_def maxReconnectAttempts_def)
  from a b c d e show ?thesis by blast
qed

theorem connect_adds_channel_witness:
  "reconnectAttemptsRef (run gameConfig [CallConnect, SockOpen 0] (initial True :: (nat, unit) ws_hook)) < 5
   \<and> urlAccepted (run gameConfig [CallConnect, SockOpen 0] (initial True :: (nat, unit) ws_hook))
   \<and> 0 < length (sockets (run gameConfig [CallConnect, SockOpen 0] (initial True :: (nat, unit) ws_hook)))
   \<and> readyStateOf (connect (run gameConfig [CallConnect, SockOpen 0]
        (initial True :: (nat, unit) ws_hook))) 0 = Some OPEN
   \<and> liveChannels (connect (run gameConfig [CallConnect, SockOpen 0]
        (initial True :: (nat, unit) ws_hook))) = 2
   \<and> reconnectAttemptsRef (initial False :: (nat, unit) ws_hook) < 5
   \<and> \<not> urlAccepted (initial False :: (nat, unit) ws_hook)
   \<and> sockets (connect (initial False :: (nat, unit) ws_hook)) = []
   \<and> 5 \<le> reconnectAttemptsRef ((initial True :: (nat, unit) ws_hook)\<lparr>reconnectAttemptsRef := 5\<rparr>)
   \<and> sockets (connect ((initial True :: (nat, unit) ws_hook)\<lparr>reconnectAttemptsRef := 5\<rparr>)) = []"
  using connect_adds_channel [of "run gameConfig [CallConnect, SockOpen 0] (initial True :: (nat, unit) ws_hook)"]
    connect_adds_channel [of "initial False :: (nat, unit) ws_hook"]
    connect_adds_channel [of "(initial True :: (nat, unit) ws_hook)\<lparr>reconnectAttemptsRef := 5\<rparr>"]
  by (simp add: hook_defs)

text \<open>
  C9, as stated, fails: after two calls of \<open>connect\<close> the first socket opens and receives a
  ping while the second, the current one, is still connecting: no pong is sent although
  the channel the ping came on is open. With both open, the pong for a ping on the first
  goes out on the second.
\<close>

theorem ping_on_stale_channel:
  "readyStateOf (run gameConfig [CallConnect, CallConnect, SockOpen 0]
      (initial True :: (nat, unit) ws_hook)) 0 = Some OPEN
   \<and> sent (step gameConfig (SockMessage 0 Ping) (run gameConfig [CallConnect, CallConnect, SockOpen 0]
      (initial True :: (nat, unit) ws_hook))) = []
   \<and> readyStateOf (run gameConfig [CallConnect, CallConnect, SockOpen 0, SockOpen 1]
      (initial True :: (nat, unit) ws_hook)) 0 = Some OPEN
   \<and> sent (step gameConfig (SockMessage 0 Ping)
      (run gameConfig [CallConnect, CallConnect, SockOpen 0, SockOpen 1]
      (initial True :: (nat, unit) ws_hook))) = [(1, Pong)]"
  by (simp add: hook_defs)

text \<open>
  C9, amended. A ping delivered on socket \<open>i\<close> is answered by exactly one pong, sent on the
  current socket \<open>wsRef.current\<close>, if that one is open, and by nothing if there is no
  current socket or it is not open; when the ping came on the current socket the pong
  goes back on the same channel. A socket that is not open delivers no message, so nothing
  is sent for it. No other message type sends anything.
\<close>

theorem pong_on_current_channel:
  "(readyStateOf s i = Some OPEN \<and> wsRef s = Some i \<longrightarrow>
      sent (step cfg (SockMessage i Ping) s) = sent s @ [(i, Pong)])
   \<and> (readyStateOf s i = Some OPEN \<and> wsRef s = Some c \<and> readyStateOf s c = Some OPEN \<longrightarrow>
      sent (step cfg (SockMessage i Ping) s) = sent s @ [(c, Pong)])
   \<and> (readyStateOf s i = Some OPEN \<and> wsRef s = Some c \<and> readyStateOf s c \<noteq> Some OPEN \<longrightarrow>
      sent (step cfg (SockMessage i Ping) s) = sent s)
   \<and> (readyStateOf s i = Some OPEN \<and> wsRef s = None \<longrightarrow>
      sent (step cfg (SockMessage i Ping) s) = sent s)
   \<and> (readyStateOf s i \<noteq> Some OPEN \<longrightarrow> step cfg (SockMessage i m) s = s)
   \<and> (m \<noteq> Ping \<longrightarrow> sent (step cfg (SockMessage i m) s) = sent s)"
  by (cases m) (simp_all add: step_def onmessage_def)

theorem pong_on_current_channel_witness:
  "readyStateOf (run gameConfig [CallConnect, SockOpen 0] (initial True :: (nat, unit) ws_hook)) 0 = Some OPEN
   \<and> wsRef (run gameConfig [CallConnect, SockOpen 0] (initial True :: (nat, unit) ws_hook)) = Some 0
   \<and> sent (step gameConfig (SockMessage 0 Ping)
        (run gameConfig [CallConnect, SockOpen 0] (initial True :: (nat, unit) ws_hook))) = [(0, Pong)]
   \<and> (Stats :: nat message) \<noteq> Ping
   \<and> sent (step gameConfig (SockMessage 0 Stats)
        (run gameConfig [CallConnect, SockOpen 0] (initial True :: (nat, unit) ws_hook))) = []
   \<and> readyStateOf (run gameConfig [CallConnect, CallConnect, SockOpen 0] (initial True :: (nat, unit) ws_hook)) 0
        = Some OPEN
   \<and> wsRef (run gameConfig [CallConnect, CallConnect, SockOpen 0] (initial True :: (nat, unit) ws_hook)) = Some 1
   \<and> readyStateOf (run gameConfig [CallConnect, CallConnect, SockOpen 0] (initial True :: (nat, unit) ws_hook)) 1
        \<noteq> Some OPEN
   \<and> sent (step gameConfig (SockMessage 0 Ping)
        (run gameConfig [CallConnect, CallConnect, SockOpen 0] (initial True :: (nat, unit) ws_hook))) = []
   \<and> readyStateOf (run gameConfig [CallConnect, CallConnect, SockOpen 0, CallDisconnect]
        (initial True :: (nat, unit) ws_hook)) 0 = Some OPEN
   \<and> wsRef (run gameConfig [CallConnect, CallConnect, SockOpen 0, CallDisconnect]
        (initial True :: (nat, unit) ws_hook)) = None
   \<and> sent (step gameConfig (SockMessage 0 Ping)
        (run gameConfig [CallConnect, CallConnect, SockOpen 0, CallDisconnect]
          (initial True :: (nat, unit) ws_hook))) = []
   \<and> readyStateOf (run gameConfig [CallConnect, SockOpen 0, CallDisconnect] (initial True :: (nat, unit) ws_hook)) 0
        \<noteq> Some OPEN
   \<and> step gameConfig (SockMessage 0 Ping)
        (run gameConfig [CallConnect, SockOpen 0, CallDisconnect] (initial True :: (nat, unit) ws_hook))
      = run gameConfig [CallConnect, SockOpen 0, CallDisconnect] (initial True :: (nat, unit) ws_hook)"
  using pong_on_current_channel [where s = "run gameConfig [CallConnect, SockOpen 0] (initial True :: (nat, unit) ws_hook)"
      and i = 0 and c = 0 and cfg = gameConfig and m = Stats]
    pong_on_current_channel [where s = "run gameConfig [CallConnect, CallConnect, SockOpen 0] (initial True :: (nat, unit) ws_hook)"
      and i = 0 and c = 1 and cfg = gameConfig and m = Ping]
    pong_on_current_channel [where s = "run gameConfig [CallConnect, CallConnect, SockOpen 0, CallDisconnect]
        (initial True :: (nat, unit) ws_hook)"
      and i = 0 and c = 0 and cfg = gameConfig and m = Ping]
    pong_on_current_channel [where s = "run gameConfig [CallConnect, SockOpen 0, CallDisconnect] (initial True :: (nat, unit) ws_hook)"
      and i = 0 and c = 0 and cfg = gameConfig and m = Ping]
  by (simp add: hook_defs)

section \<open>Rounding to binary64\<close>

lemma pow2_powr: "pow2 e = 2 powr (real_of_int e)"
proof (cases "0 \<le> e")
  case True
  then have "2 powr (real_of_int e) = 2 powr (real (nat e))" by simp
  also have "\<dots> = 2 ^ nat e" by (simp add: powr_realpow)
  finally show ?thesis using True by (simp add: pow2_def)
next
  case False
  then have "real_of_int e = - real (nat (- e))" by simp
  then have "2 powr (real_of_int e) = inverse (2 powr (real (nat (- e))))"
    by (simp only: powr_minus)
  also have "\<dots> = 1 / 2 ^ nat (- e)" by (simp add: powr_realpow inverse_eq_divide)
  finally show ?thesis using False by (simp add: pow2_def)
qed

lemma pow2_pos: "0 < pow2 e"
  by (simp add: pow2_powr)

lemma pow2_add: "pow2 (a + b) = pow2 a * pow2 b"
  by (simp add: pow2_powr powr_add)

lemma pow2_mono: "a \<le> b \<Longrightarrow> pow2 a \<le> pow2 b"
  by (simp add: pow2_powr)

lemma floor_log2:
  assumes "pow2 k \<le> \<bar>x\<bar>" and "\<bar>x\<bar> < pow2 (k + 1)"
  shows "\<lfloor>log 2 \<bar>x\<bar>\<rfloor> = k"
proof -
  from assms(1) pow2_pos [of k] have "0 < \<bar>x\<bar>" by linarith
  moreover have "2 powr (real_of_int k) \<le> \<bar>x\<bar>" using assms(1) by (simp add: pow2_powr)
  moreover have "\<bar>x\<bar> < 2 powr (real_of_int k + 1)" using assms(2) by (simp add: pow2_powr)
  ultimately show ?thesis
    by (simp add: floor_log_eq_powr_iff)
qed

lemma exponent_eq:
  assumes "pow2 k \<le> \<bar>x\<bar>" and "\<bar>x\<bar> < pow2 (k + 1)" and "- 1022 \<le> k"
  shows "exponent x = k"
  using floor_log2 [OF assms(1,2)] assms(3) by (simp add: exponent_def)

lemma rnd_eval:
  assumes "pow2 k \<le> \<bar>x\<bar>" and "\<bar>x\<bar> < pow2 (k + 1)" and "- 1022 \<le> k"
  shows "rnd x = real_of_int (roundHalfEven (x / pow2 (k - 52))) * pow2 (k - 52)"
proof -
  from assms(1) pow2_pos [of k] have "x \<noteq> 0" by auto
  then show ?thesis
    by (simp add: rnd_def exponent_eq [OF assms])
qed

lemma roundHalfEven_le: "q < real_of_int n + 1 / 2 \<Longrightarrow> roundHalfEven q \<le> n"
  unfolding roundHalfEven_def Let_def by (auto; linarith)

lemma roundHalfEven_ge: "real_of_int n - 1 / 2 < q \<Longrightarrow> n \<le> roundHalfEven q"
  unfolding roundHalfEven_def Let_def by (auto; linarith)

lemma roundHalfEven_nonneg: "0 \<le> q \<Longrightarrow> 0 \<le> roundHalfEven q"
  using roundHalfEven_ge [of 0 q] by simp

lemma rnd_nonneg: "0 \<le> x \<Longrightarrow> 0 \<le> rnd x"
  using pow2_pos [of "exponent x - 52"]
  by (simp add: rnd_def roundHalfEven_nonneg)

lemma pow2_nat: "0 \<le> k \<Longrightarrow> pow2 k = real_of_int (2 ^ nat k)"
  by (simp add: pow2_def)

lemma exponent_less:
  assumes "0 < x" and "x < pow2 m" and "- 1021 \<le> m"
  shows "exponent x \<le> m - 1"
proof -
  from assms(1,2) have "log 2 x < real_of_int m"
    by (simp add: pow2_powr log_less_iff)
  then have "\<lfloor>log 2 x\<rfloor> < m" by linarith
  with assms(1,3) show ?thesis by (simp add: exponent_def)
qed

lemma rnd_le_pow2:
  assumes "0 < x" and "x < pow2 m" and "- 1021 \<le> m"
  shows "rnd x \<le> pow2 m"
proof -
  define e where "e = exponent x"
  have e: "e \<le> m - 1" unfolding e_def using assms by (rule exponent_less)
  have u: "0 < pow2 (e - 52)" by (rule pow2_pos)
  have split: "pow2 m = pow2 (m - e + 52) * pow2 (e - 52)"
    by (simp add: pow2_add [symmetric])
  have "x / pow2 (e - 52) < pow2 (m - e + 52)"
    using assms(2) u by (simp add: split pos_divide_less_eq)
  also have "\<dots> = real_of_int (2 ^ nat (m - e + 52))"
    using e by (simp add: pow2_nat)
  finally have "roundHalfEven (x / pow2 (e - 52)) \<le> 2 ^ nat (m - e + 52)"
    by (intro roundHalfEven_le) simp
  then have "real_of_int (roundHalfEven (x / pow2 (e - 52))) \<le> real_of_int (2 ^ nat (m - e + 52))"
    by (simp only: of_int_le_iff)
  also have "\<dots> = pow2 (m - e + 52)"
    using e by (simp add: pow2_nat)
  finally have "real_of_int (roundHalfEven (x / pow2 (e - 52))) * pow2 (e - 52)
      \<le> pow2 (m - e + 52) * pow2 (e - 52)"
    using u by (simp add: mult_right_mono)
  with assms(1) show ?thesis
    by (simp add: rnd_def e_def [symmetric] split [symmetric])
qed

lemma unitDraw_below:
  assumes "unitDraw r"
  shows "r \<le> 1 - 1 / 2 ^ 53"
proof (cases "r < 1 / 2")
  case True
  then show ?thesis by simp
next
  case False
  with assms have bounds: "pow2 (- 1) \<le> \<bar>r\<bar>" "\<bar>r\<bar> < pow2 (- 1 + 1)"
    by (simp_all add: unitDraw_def pow2_def)
  have "rnd r = real_of_int (roundHalfEven (r / pow2 (- 1 - 52))) * pow2 (- 1 - 52)"
    using bounds by (rule rnd_eval) simp
  moreover from assms have "rnd r = r" by (simp add: unitDraw_def isDouble_def)
  ultimately have r: "r = real_of_int (roundHalfEven (r * 2 ^ 53)) / 2 ^ 53"
    by (simp add: pow2_def)
  define m where "m = roundHalfEven (r * 2 ^ 53)"
  from r have rm: "r = real_of_int m / 2 ^ 53" by (simp add: m_def)
  from assms have "r < 1" by (simp add: unitDraw_def)
  with rm have "real_of_int m < real_of_int (2 ^ 53)" by (simp add: divide_less_eq)
  then have "m < 2 ^ 53" by (simp only: of_int_less_iff)
  then have "m \<le> 2 ^ 53 - 1" by simp
  then have "real_of_int m \<le> real_of_int (2 ^ 53 - 1)" by (simp only: of_int_le_iff)
  then have "real_of_int m \<le> 2 ^ 53 - 1" by simp
  then have "real_of_int m / 2 ^ 53 \<le> (2 ^ 53 - 1) / 2 ^ 53"
    by (simp add: divide_right_mono)
  with rm show ?thesis by (simp add: diff_divide_distrib)
qed

lemma lanes_range:
  assumes "unitDraw r"
  shows "nat \<lfloor>rnd (r * 6)\<rfloor> \<le> 5"
proof -
  from assms have r0: "0 \<le> r" by (simp add: unitDraw_def)
  have top: "r * 6 \<le> 6 - 6 / 2 ^ 53"
    using unitDraw_below [OF assms] by simp
  have "rnd (r * 6) < 6"
  proof (cases "r * 6 < 4")
    case True
    show ?thesis
    proof (cases "r * 6 = 0")
      case True
      then show ?thesis by (simp add: rnd_def)
    next
      case False
      with r0 have "0 < r * 6" by simp
      moreover from True have "r * 6 < pow2 2" by (simp add: pow2_def)
      ultimately have "rnd (r * 6) \<le> pow2 2" by (rule rnd_le_pow2) simp
      then show ?thesis by (simp add: pow2_def)
    qed
  next
    case False
    with top have bounds: "pow2 2 \<le> \<bar>r * 6\<bar>" "\<bar>r * 6\<bar> < pow2 (2 + 1)"
      by (simp_all add: pow2_def)
    have eval: "rnd (r * 6) = real_of_int (roundHalfEven (r * 6 / pow2 (2 - 52))) * pow2 (2 - 52)"
      using bounds by (rule rnd_eval) simp
    have "r * 6 / pow2 (2 - 52) < real_of_int (6 * 2 ^ 50 - 1) + 1 / 2"
      using top by (simp add: pow2_def)
    then have "roundHalfEven (r * 6 / pow2 (2 - 52)) \<le> 6 * 2 ^ 50 - 1"
      by (rule roundHalfEven_le)
    then have "real_of_int (roundHalfEven (r * 6 / pow2 (2 - 52))) \<le> real_of_int (6 * 2 ^ 50 - 1)"
      by (simp only: of_int_le_iff)
    then have "rnd (r * 6) \<le> real_of_int (6 * 2 ^ 50 - 1) * pow2 (2 - 52)"
      unfolding eval using pow2_pos [of "2 - 52"] by (simp only: mult_right_mono less_imp_le)
    also have "\<dots> < 6" by (simp add: pow2_def)
    finally show ?thesis .
  qed
  then have "\<lfloor>rnd (r * 6)\<rfloor> < 6" by (simp add: floor_less_iff)
  then show ?thesis by linarith
qed

lemma rnd_eighth: "rnd (1 / 8) = 1 / 8"
  by (subst rnd_eval [where k = "- 3"]) (simp_all add: pow2_def roundHalfEven_def)

lemma rnd_quarter: "rnd (1 / 4) = 1 / 4"
  by (subst rnd_eval [where k = "- 2"]) (simp_all add: pow2_def roundHalfEven_def)

lemma rnd_three_eighths: "rnd (3 / 8) = 3 / 8"
  by (subst rnd_eval [where k = "- 2"]) (simp_all add: pow2_def roundHalfEven_def)

lemma rnd_half: "rnd (1 / 2) = 1 / 2"
  by (subst rnd_eval [where k = "- 1"]) (simp_all add: pow2_def roundHalfEven_def)

lemma rnd_three_quarters: "rnd (3 / 4) = 3 / 4"
  by (subst rnd_eval [where k = "- 1"]) (simp_all add: pow2_def roundHalfEven_def)

lemma rnd_seven_eighths: "rnd (7 / 8) = 7 / 8"
  by (subst rnd_eval [where k = "- 1"]) (simp_all add: pow2_def roundHalfEven_def)

lemma rnd_nine_quarters: "rnd (9 / 4) = 9 / 4"
  by (subst rnd_eval [where k = 1]) (simp_all add: pow2_def roundHalfEven_def)

lemma rnd_twenty_one_quarters: "rnd (21 / 4) = 21 / 4"
  by (subst rnd_eval [where k = 2]) (simp_all add: pow2_def roundHalfEven_def)

lemmas rnd_values = rnd_eighth rnd_quarter rnd_three_eighths rnd_half rnd_three_quarters
  rnd_seven_eighths rnd_nine_quarters rnd_twenty_one_quarters

section \<open>The mock generator and the demo interval\<close>

text \<open>
  C4, as stated, fails: draws that give two lanes and no hit produce an event with outcome
  \<open>crossed\<close> and \<open>lanesCrossed = 2\<close>, not \<open>maxLanes\<close>; draws that give zero lanes and no hit
  produce outcome \<open>crossed\<close> with multiplier 0.
\<close>

theorem generator_breaks_invariant:
  "validEntropy \<lparr>randLanes = 3 / 8, randHit = 1 / 2, randBet = 1 / 4, randSuffix = ''k3x'', idClock = 1000,
           clock = 1000\<rparr>
   \<and> outcome (generateMockCrossing
        \<lparr>randLanes = 3 / 8, randHit = 1 / 2, randBet = 1 / 4, randSuffix = ''k3x'', idClock = 1000,
           clock = 1000\<rparr>) = Crossed
   \<and> lanesCrossed (generateMockCrossing
        \<lparr>randLanes = 3 / 8, randHit = 1 / 2, randBet = 1 / 4, randSuffix = ''k3x'', idClock = 1000,
           clock = 1000\<rparr>) = 2
   \<and> lanesCrossed (generateMockCrossing
        \<lparr>randLanes = 3 / 8, randHit = 1 / 2, randBet = 1 / 4, randSuffix = ''k3x'', idClock = 1000,
           clock = 1000\<rparr>)
        \<noteq> maxLanes gameConfig
   \<and> validEntropy \<lparr>randLanes = 1 / 8, randHit = 1 / 2, randBet = 1 / 4, randSuffix = ''k3x'', idClock = 1000,
           clock = 1000\<rparr>
   \<and> outcome (generateMockCrossing
        \<lparr>randLanes = 1 / 8, randHit = 1 / 2, randBet = 1 / 4, randSuffix = ''k3x'', idClock = 1000,
           clock = 1000\<rparr>) = Crossed
   \<and> lanesCrossed (generateMockCrossing
        \<lparr>randLanes = 1 / 8, randHit = 1 / 2, randBet = 1 / 4, randSuffix = ''k3x'', idClock = 1000,
           clock = 1000\<rparr>) = 0
   \<and> \<not> 0 < multiplier (generateMockCrossing
        \<lparr>randLanes = 1 / 8, randHit = 1 / 2, randBet = 1 / 4, randSuffix = ''k3x'', idClock = 1000,
           clock = 1000\<rparr>)"
  by (simp add: generateMockCrossing_def validEntropy_def unitDraw_def isDouble_def rnd_values
      gameConfig_def multiplierTable_def Let_def)

text \<open>
  C4, amended. For draws in \<open>[0, 1)\<close> the generated event has \<open>lanesCrossed \<le> 5\<close>; its
  outcome is \<open>hit\<close> exactly when \<open>lanesCrossed < 5\<close> and the second draw exceeds 0.7; a hit
  has multiplier 0; a crossing has multiplier 0 at zero lanes and the table's value for
  its lane count otherwise, so the multiplier is positive exactly for a crossing of at
  least one lane; five lanes are always \<open>crossed\<close>, with multiplier 8.
\<close>

theorem generated_event_shape:
  assumes "validEntropy e"
  shows "lanesCrossed (generateMockCrossing e) \<le> 5
   \<and> (outcome (generateMockCrossing e) = Hit \<longleftrightarrow>
        lanesCrossed (generateMockCrossing e) < 5 \<and> randHit e > 0.7)
   \<and> (outcome (generateMockCrossing e) = Hit \<longrightarrow>
        lanesCrossed (generateMockCrossing e) < 5 \<and> multiplier (generateMockCrossing e) = 0)
   \<and> (outcome (generateMockCrossing e) = Crossed \<longrightarrow>
        multiplier (generateMockCrossing e)
          = (if lanesCrossed (generateMockCrossing e) = 0 then 0
             else multiplierTable ! (lanesCrossed (generateMockCrossing e) - 1)))
   \<and> (0 < multiplier (generateMockCrossing e) \<longleftrightarrow>
        outcome (generateMockCrossing e) = Crossed \<and> 1 \<le> lanesCrossed (generateMockCrossing e))
   \<and> (lanesCrossed (generateMockCrossing e) = 5 \<longrightarrow>
        outcome (generateMockCrossing e) = Crossed \<and> multiplier (generateMockCrossing e) = 8)"
proof -
  define n where "n = nat \<lfloor>rnd (randLanes e * 6)\<rfloor>"
  from assms have "n \<le> 5"
    unfolding n_def by (simp add: validEntropy_def lanes_range)
  then consider "n = 0" | "n = 1" | "n = 2" | "n = 3" | "n = 4" | "n = 5"
    by linarith
  note range = this
  have lc: "lanesCrossed (generateMockCrossing e) = n"
    by (simp add: generateMockCrossing_def Let_def n_def)
  have oc: "outcome (generateMockCrossing e) = (if n < 5 \<and> randHit e > 0.7 then Hit else Crossed)"
    by (simp add: generateMockCrossing_def Let_def n_def)
  have mu: "multiplier (generateMockCrossing e)
      = (if n < 5 \<and> randHit e > 0.7 then 0 else if n = 0 then 0 else multiplierTable ! (n - 1))"
    by (simp add: generateMockCrossing_def Let_def n_def)
  from range show ?thesis
    unfolding lc oc mu by cases (simp_all add: multiplierTable_def)
qed

theorem generated_event_shape_witness:
  "validEntropy \<lparr>randLanes = 3 / 8, randHit = 3 / 4, randBet = 1 / 4, randSuffix = ''k3x'', idClock = 1000,
           clock = 1000\<rparr>
   \<and> outcome (generateMockCrossing
        \<lparr>randLanes = 3 / 8, randHit = 3 / 4, randBet = 1 / 4, randSuffix = ''k3x'', idClock = 1000,
           clock = 1000\<rparr>) = Hit
   \<and> multiplier (generateMockCrossing
        \<lparr>randLanes = 3 / 8, randHit = 3 / 4, randBet = 1 / 4, randSuffix = ''k3x'', idClock = 1000,
           clock = 1000\<rparr>) = 0
   \<and> validEntropy \<lparr>randLanes = 7 / 8, randHit = 3 / 4, randBet = 1 / 4, randSuffix = ''k3x'', idClock = 1000,
           clock = 1000\<rparr>
   \<and> lanesCrossed (generateMockCrossing
        \<lparr>randLanes = 7 / 8, randHit = 3 / 4, randBet = 1 / 4, randSuffix = ''k3x'', idClock = 1000,
           clock = 1000\<rparr>) = 5
   \<and> outcome (generateMockCrossing
        \<lparr>randLanes = 7 / 8, randHit = 3 / 4, randBet = 1 / 4, randSuffix = ''k3x'', idClock = 1000,
           clock = 1000\<rparr>) = Crossed
   \<and> multiplier (generateMockCrossing
        \<lparr>randLanes = 7 / 8, randHit = 3 / 4, randBet = 1 / 4, randSuffix = ''k3x'', idClock = 1000,
           clock = 1000\<rparr>) = 8"
  using generated_event_shape [of "\<lparr>randLanes = 3 / 8, randHit = 3 / 4, randBet = 1 / 4, randSuffix = ''k3x'', idClock = 1000,
           clock = 1000\<rparr>"]
    generated_event_shape [of "\<lparr>randLanes = 7 / 8, randHit = 3 / 4, randBet = 1 / 4, randSuffix = ''k3x'', idClock = 1000,
           clock = 1000\<rparr>"]
  by (simp add: generateMockCrossing_def validEntropy_def unitDraw_def isDouble_def rnd_values
      multiplierTable_def Let_def)

lemma tickEffect_interval:
  "(demoInterval (tickEffect r s) = None) = (connectedProp (tickEffect r s) \<or> isPaused (tickEffect r s))"
  by (simp add: tickEffect_def Let_def)

lemma initEffect_frame:
  "demoInterval (initEffect seeds s) = demoInterval s
   \<and> connectedProp (initEffect seeds s) = connectedProp s
   \<and> isPaused (initEffect seeds s) = isPaused s"
  by (simp add: initEffect_def Let_def split: option.split)

lemma mount_interval:
  "(demoInterval (mount ext conn seeds r) = None)
     = (connectedProp (mount ext conn seeds r) \<or> isPaused (mount ext conn seeds r))"
  by (simp add: mount_def tickEffect_interval)

lemma feedStep_interval:
  assumes "(demoInterval s = None) = (connectedProp s \<or> isPaused s)"
  shows "(demoInterval (feedStep cfg ev s) = None)
     = (connectedProp (feedStep cfg ev s) \<or> isPaused (feedStep cfg ev s))"
proof (cases ev)
  case (Tick e)
  with assms show ?thesis by (simp add: feedStep_def demoTick_def)
next
  case (NewCrossings ext seeds)
  with assms show ?thesis by (simp add: feedStep_def initEffect_frame)
next
  case (NewConnected c r)
  with assms show ?thesis by (simp add: feedStep_def tickEffect_interval)
next
  case (ClickPause r)
  then show ?thesis by (simp add: feedStep_def tickEffect_interval)
qed

lemma feedRun_interval:
  "(demoInterval s = None) = (connectedProp s \<or> isPaused s) \<Longrightarrow>
   (demoInterval (feedRun cfg evs s) = None)
     = (connectedProp (feedRun cfg evs s) \<or> isPaused (feedRun cfg evs s))"
proof (induction evs arbitrary: s)
  case Nil
  then show ?case by simp
next
  case (Cons ev evs)
  from Cons.prems have "(demoInterval (feedStep cfg ev s) = None)
     = (connectedProp (feedStep cfg ev s) \<or> isPaused (feedStep cfg ev s))"
    by (rule feedStep_interval)
  then show ?case by (simp add: Cons.IH)
qed

lemma ticks_without_interval:
  "demoInterval s = None \<Longrightarrow> feedRun cfg (map Tick es) s = s"
  by (induction es) (simp_all add: feedStep_def)

lemma ticks_while_connected:
  assumes "connectedProp (feedRun cfg evs (mount ext conn seeds r))
      \<or> isPaused (feedRun cfg evs (mount ext conn seeds r))"
  shows "feedRun cfg (map Tick es) (feedRun cfg evs (mount ext conn seeds r))
      = feedRun cfg evs (mount ext conn seeds r)"
proof -
  have "(demoInterval (feedRun cfg evs (mount ext conn seeds r)) = None)
     = (connectedProp (feedRun cfg evs (mount ext conn seeds r))
        \<or> isPaused (feedRun cfg evs (mount ext conn seeds r)))"
    by (rule feedRun_interval) (rule mount_interval)
  with assms have "demoInterval (feedRun cfg evs (mount ext conn seeds r)) = None"
    by simp
  then show ?thesis by (rule ticks_without_interval)
qed

lemma newCrossings_feed:
  "feedCrossings (feedStep cfg (NewCrossings ext seeds) s) =
     (case ext of
        None \<Rightarrow> sort_key (\<lambda>c. - timestamp c) (map (\<lambda>i. seedCrossing (seeds i)) [0..<15])
      | Some xs \<Rightarrow>
          if xs = [] then sort_key (\<lambda>c. - timestamp c) (map (\<lambda>i. seedCrossing (seeds i)) [0..<15])
          else xs)"
  by (simp add: feedStep_def initEffect_def Let_def split: option.split)

lemma newCrossings_frame:
  "connectedProp (feedStep cfg (NewCrossings ext seeds) s) = connectedProp s
   \<and> isPaused (feedStep cfg (NewCrossings ext seeds) s) = isPaused s"
  by (simp add: feedStep_def initEffect_frame)

text \<open>
  C7, as stated, fails: the component is mounted connected with one event from the server
  in its buffer; the crossings prop then arrives empty (an empty \<open>history\<close> frame), and the
  first effect replaces the buffer by fifteen generated events while \<open>connected\<close> is still
  true.
\<close>

theorem seeding_while_connected:
  "connectedProp (mount
      (Some [\<lparr>event_id = (1000, ''srv''), timestamp = 1000, lanesCrossed = 5, outcome = Crossed,
              multiplier = 8, betAmount = Fixed False 2 150\<rparr>]) True
      (\<lambda>i. \<lparr>seedMock = \<lparr>randLanes = 3 / 8, randHit = 1 / 2, randBet = 1 / 4, randSuffix = ''k3x'',
               idClock = 90000, clock = 90000\<rparr>, seedClock = 90000, randAge = 1 / 2\<rparr>) (1 / 2))
   \<and> feedCrossings (mount
      (Some [\<lparr>event_id = (1000, ''srv''), timestamp = 1000, lanesCrossed = 5, outcome = Crossed,
              multiplier = 8, betAmount = Fixed False 2 150\<rparr>]) True
      (\<lambda>i. \<lparr>seedMock = \<lparr>randLanes = 3 / 8, randHit = 1 / 2, randBet = 1 / 4, randSuffix = ''k3x'',
               idClock = 90000, clock = 90000\<rparr>, seedClock = 90000, randAge = 1 / 2\<rparr>) (1 / 2))
     = [\<lparr>event_id = (1000, ''srv''), timestamp = 1000, lanesCrossed = 5, outcome = Crossed,
         multiplier = 8, betAmount = Fixed False 2 150\<rparr>]
   \<and> connectedProp (feedStep gameConfig
      (NewCrossings (Some [])
        (\<lambda>i. \<lparr>seedMock = \<lparr>randLanes = 3 / 8, randHit = 1 / 2, randBet = 1 / 4, randSuffix = ''k3x'',
                 idClock = 95000, clock = 95000\<rparr>, seedClock = 95000, randAge = 1 / 2\<rparr>))
      (mount
        (Some [\<lparr>event_id = (1000, ''srv''), timestamp = 1000, lanesCrossed = 5, outcome = Crossed,
                multiplier = 8, betAmount = Fixed False 2 150\<rparr>]) True
        (\<lambda>i. \<lparr>seedMock = \<lparr>randLanes = 3 / 8, randHit = 1 / 2, randBet = 1 / 4, randSuffix = ''k3x'',
                 idClock = 90000, clock = 90000\<rparr>, seedClock = 90000, randAge = 1 / 2\<rparr>) (1 / 2)))
   \<and> feedCrossings (feedStep gameConfig
      (NewCrossings (Some [])
        (\<lambda>i. \<lparr>seedMock = \<lparr>randLanes = 3 / 8, randHit = 1 / 2, randBet = 1 / 4, randSuffix = ''k3x'',
                 idClock = 95000, clock = 95000\<rparr>, seedClock = 95000, randAge = 1 / 2\<rparr>))
      (mount
        (Some [\<lparr>event_id = (1000, ''srv''), timestamp = 1000, lanesCrossed = 5, outcome = Crossed,
                multiplier = 8, betAmount = Fixed False 2 150\<rparr>]) True
        (\<lambda>i. \<lparr>seedMock = \<lparr>randLanes = 3 / 8, randHit = 1 / 2, randBet = 1 / 4, randSuffix = ''k3x'',
                 idClock = 90000, clock = 90000\<rparr>, seedClock = 90000, randAge = 1 / 2\<rparr>) (1 / 2)))
     = replicate 15 (seedCrossing
         \<lparr>seedMock = \<lparr>randLanes = 3 / 8, randHit = 1 / 2, randBet = 1 / 4, randSuffix = ''k3x'',
            idClock = 95000, clock = 95000\<rparr>, seedClock = 95000, randAge = 1 / 2\<rparr>)"
  by (simp add: mount_def tickEffect_def initEffect_def feedStep_def Let_def upt_conv_Cons
      eval_nat_numeral)

text \<open>
  C7, amended. In every state the component reaches from its mount, by any events, if
  \<open>connected\<close> is true or the feed is paused then no interval is set, and any number of
  interval periods passing leaves the state, and so the buffer, as it is: the
  interval-driven generator inserts nothing. The first effect is not suppressed: whenever
  the crossings prop arrives missing or empty it replaces the buffer by fifteen generated
  events, newest first, and otherwise by the prop, without looking at \<open>connected\<close> or the
  pause, which it leaves as they are.
\<close>

theorem demo_interval_suppressed:
  "(connectedProp (feedRun cfg evs (mount ext conn seeds r))
      \<or> isPaused (feedRun cfg evs (mount ext conn seeds r)) \<longrightarrow>
      feedRun cfg (map Tick es) (feedRun cfg evs (mount ext conn seeds r))
        = feedRun cfg evs (mount ext conn seeds r))
   \<and> feedCrossings (feedStep cfg (NewCrossings arrived seeds') s) =
       (case arrived of
          None \<Rightarrow> sort_key (\<lambda>c. - timestamp c) (map (\<lambda>i. seedCrossing (seeds' i)) [0..<15])
        | Some xs \<Rightarrow>
            if xs = [] then sort_key (\<lambda>c. - timestamp c) (map (\<lambda>i. seedCrossing (seeds' i)) [0..<15])
            else xs)
   \<and> length (sort_key (\<lambda>c. - timestamp c) (map (\<lambda>i. seedCrossing (seeds' i)) [0..<15])) = 15
   \<and> connectedProp (feedStep cfg (NewCrossings arrived seeds') s) = connectedProp s
   \<and> isPaused (feedStep cfg (NewCrossings arrived seeds') s) = isPaused s"
  using ticks_while_connected [of cfg evs ext conn seeds r es]
    newCrossings_feed [of cfg arrived seeds' s] newCrossings_frame [of cfg arrived seeds' s]
  by simp

theorem demo_interval_suppressed_witness:
  "connectedProp (feedRun gameConfig [] (mount (Some []) True
      (\<lambda>i. \<lparr>seedMock = \<lparr>randLanes = 3 / 8, randHit = 1 / 2, randBet = 1 / 4, randSuffix = ''k3x'', idClock = 90000,
           clock = 90000\<rparr>,
             seedClock = 90000, randAge = 1 / 2\<rparr>) (1 / 2)))
   \<and> feedRun gameConfig
        (map Tick [\<lparr>randLanes = 7 / 8, randHit = 1 / 8, randBet = 3 / 4, randSuffix = ''q0z'', idClock = 94000,
           clock = 94000\<rparr>,
                   \<lparr>randLanes = 1 / 8, randHit = 3 / 4, randBet = 1 / 2, randSuffix = ''m7c'', idClock = 98000,
           clock = 98000\<rparr>])
        (feedRun gameConfig [] (mount (Some []) True
          (\<lambda>i. \<lparr>seedMock = \<lparr>randLanes = 3 / 8, randHit = 1 / 2, randBet = 1 / 4, randSuffix = ''k3x'', idClock = 90000,
           clock = 90000\<rparr>,
                 seedClock = 90000, randAge = 1 / 2\<rparr>) (1 / 2)))
      = feedRun gameConfig [] (mount (Some []) True
          (\<lambda>i. \<lparr>seedMock = \<lparr>randLanes = 3 / 8, randHit = 1 / 2, randBet = 1 / 4, randSuffix = ''k3x'', idClock = 90000,
           clock = 90000\<rparr>,
                 seedClock = 90000, randAge = 1 / 2\<rparr>) (1 / 2))
   \<and> isPaused (feedRun gameConfig [ClickPause (1 / 4)] (mount None False
      (\<lambda>i. \<lparr>seedMock = \<lparr>randLanes = 3 / 8, randHit = 1 / 2, randBet = 1 / 4, randSuffix = ''k3x'', idClock = 90000,
           clock = 90000\<rparr>,
             seedClock = 90000, randAge = 1 / 2\<rparr>) (1 / 2)))
   \<and> feedRun gameConfig
        (map Tick [\<lparr>randLanes = 7 / 8, randHit = 1 / 8, randBet = 3 / 4, randSuffix = ''q0z'', idClock = 94000,
           clock = 94000\<rparr>])
        (feedRun gameConfig [ClickPause (1 / 4)] (mount None False
          (\<lambda>i. \<lparr>seedMock = \<lparr>randLanes = 3 / 8, randHit = 1 / 2, randBet = 1 / 4, randSuffix = ''k3x'', idClock = 90000,
           clock = 90000\<rparr>,
                 seedClock = 90000, randAge = 1 / 2\<rparr>) (1 / 2)))
      = feedRun gameConfig [ClickPause (1 / 4)] (mount None False
          (\<lambda>i. \<lparr>seedMock = \<lparr>randLanes = 3 / 8, randHit = 1 / 2, randBet = 1 / 4, randSuffix = ''k3x'', idClock = 90000,
           clock = 90000\<rparr>,
                 seedClock = 90000, randAge = 1 / 2\<rparr>) (1 / 2))"
  using demo_interval_suppressed [where cfg = gameConfig and evs = "[]" and ext = "Some []"
      and conn = True
      and seeds = "\<lambda>i. \<lparr>seedMock = \<lparr>randLanes = 3 / 8, randHit = 1 / 2, randBet = 1 / 4, randSuffix = ''k3x'', idClock = 90000,
           clock = 90000\<rparr>,
             seedClock = 90000, randAge = 1 / 2\<rparr>"
      and r = "1 / 2"
      and arrived = "Some []" and s = "mount None False (\<lambda>i. \<lparr>seedMock = \<lparr>randLanes = 3 / 8,
        randHit = 1 / 2, randBet = 1 / 4, randSuffix = ''k3x'', idClock = 90000, clock = 90000\<rparr>,
        seedClock = 90000, randAge = 1 / 2\<rparr>) (1 / 2)"
      and seeds' = "\<lambda>i. \<lparr>seedMock = \<lparr>randLanes = 3 / 8,
        randHit = 1 / 2, randBet = 1 / 4, randSuffix = ''k3x'', idClock = 90000, clock = 90000\<rparr>,
        seedClock = 90000, randAge = 1 / 2\<rparr>"
      and es = "[\<lparr>randLanes = 7 / 8, randHit = 1 / 8, randBet = 3 / 4, randSuffix = ''q0z'', idClock = 94000,
           clock = 94000\<rparr>,
                   \<lparr>randLanes = 1 / 8, randHit = 3 / 4, randBet = 1 / 2, randSuffix = ''m7c'', idClock = 98000,
           clock = 98000\<rparr>]"]
    demo_interval_suppressed [where cfg = gameConfig and evs = "[ClickPause (1 / 4)]" and ext = None
      and conn = False
      and seeds = "\<lambda>i. \<lparr>seedMock = \<lparr>randLanes = 3 / 8, randHit = 1 / 2, randBet = 1 / 4, randSuffix = ''k3x'', idClock = 90000,
           clock = 90000\<rparr>,
             seedClock = 90000, randAge = 1 / 2\<rparr>"
      and r = "1 / 2"
      and arrived = "Some []" and s = "mount None False (\<lambda>i. \<lparr>seedMock = \<lparr>randLanes = 3 / 8,
        randHit = 1 / 2, randBet = 1 / 4, randSuffix = ''k3x'', idClock = 90000, clock = 90000\<rparr>,
        seedClock = 90000, randAge = 1 / 2\<rparr>) (1 / 2)"
      and seeds' = "\<lambda>i. \<lparr>seedMock = \<lparr>randLanes = 3 / 8,
        randHit = 1 / 2, randBet = 1 / 4, randSuffix = ''k3x'', idClock = 90000, clock = 90000\<rparr>,
        seedClock = 90000, randAge = 1 / 2\<rparr>"
      and es = "[\<lparr>randLanes = 7 / 8, randHit = 1 / 8, randBet = 3 / 4, randSuffix = ''q0z'', idClock = 94000,
           clock = 94000\<rparr>]"]
  by (simp add: mount_def tickEffect_def initEffect_def feedStep_def Let_def)

section \<open>Fetching statistics\<close>

lemma fetchLaneStats_failed: "failed r \<Longrightarrow> fetchLaneStats r s = s"
  by (cases r rule: failed.cases) (simp_all add: fetchLaneStats_def)

lemma fetchHistory_failed: "failed r \<Longrightarrow> fetchHistory r s = s"
  by (cases r rule: failed.cases) (simp_all add: fetchHistory_def)

lemma fetchLaneStats_frame:
  "stats (fetchLaneStats r s) = stats s \<and> statsError (fetchLaneStats r s) = statsError s"
  by (cases r rule: failed.cases) (simp_all add: fetchLaneStats_def)

lemma fetchHistory_frame:
  "stats (fetchHistory r s) = stats s \<and> statsError (fetchHistory r s) = statsError s"
  by (cases r rule: failed.cases) (simp_all add: fetchHistory_def)

lemma fetchStats_failed:
  "failed r \<Longrightarrow> stats (fetchStats r s) = stats s \<and> statsError (fetchStats r s) \<noteq> None
     \<and> laneStats (fetchStats r s) = laneStats s \<and> history (fetchStats r s) = history s"
  by (cases r rule: failed.cases) (simp_all add: fetchStats_def)

lemma fetchStats_succeeded:
  "\<not> failed r \<Longrightarrow> \<exists>d status. r = Response status (Inr d) \<and> ok status
     \<and> stats (fetchStats r s) = Some d \<and> statsError (fetchStats r s) = None"
  by (cases r rule: failed.cases) (simp_all add: fetchStats_def)

text \<open>
  C8. A failed lane-stats or history fetch changes nothing; no lane-stats or history
  fetch, failed or not, touches the overall stats or the error. A failed overall-stats
  fetch keeps the snapshot and sets the error. A successful overall-stats fetch after it
  replaces the snapshot by the data and clears the error; a successful lane-stats fetch
  after it updates the lane stats while the snapshot stays and the error stays set.
\<close>

theorem fetch_failures_kept_apart:
  "(failed rl \<longrightarrow> fetchLaneStats rl s = s)
   \<and> (failed rh \<longrightarrow> fetchHistory rh s = s)
   \<and> stats (fetchLaneStats rl s) = stats s \<and> statsError (fetchLaneStats rl s) = statsError s
   \<and> stats (fetchHistory rh s) = stats s \<and> statsError (fetchHistory rh s) = statsError s
   \<and> (failed r \<longrightarrow>
        stats (fetchStats r s) = stats s \<and> statsError (fetchStats r s) \<noteq> None)
   \<and> (failed r \<and> ok status \<longrightarrow>
        stats (fetchStats (Response status (Inr d)) (fetchStats r s)) = Some d
        \<and> statsError (fetchStats (Response status (Inr d)) (fetchStats r s)) = None)
   \<and> (failed r \<and> ok status \<longrightarrow>
        laneStats (fetchLaneStats (Response status (Inr l)) (fetchStats r s)) = Some l
        \<and> stats (fetchLaneStats (Response status (Inr l)) (fetchStats r s)) = stats s
        \<and> statsError (fetchLaneStats (Response status (Inr l)) (fetchStats r s)) \<noteq> None)"
  using fetchLaneStats_failed [of rl s] fetchHistory_failed [of rh s]
    fetchLaneStats_frame [of rl s] fetchHistory_frame [of rh s] fetchStats_failed [of r s]
    fetchLaneStats_frame [of "Response status (Inr l)" "fetchStats r s"]
  by (simp add: fetchStats_def fetchLaneStats_def)

theorem fetch_failures_kept_apart_witness:
  "failed (Response 500 (Inr [1::nat]) :: nat list fetched)
   \<and> failed (Rejected ''Failed to fetch'' :: nat list fetched)
   \<and> failed (Response 503 (Inr (7::nat)))
   \<and> ok 200
   \<and> fetchLaneStats (Response 500 (Inr [1::nat]))
        \<lparr>stats = Some (3::nat), laneStats = Some [2::nat], history = [4::nat], loading = False, statsError = None\<rparr>
      = \<lparr>stats = Some 3, laneStats = Some [2], history = [4], loading = False, statsError = None\<rparr>
   \<and> fetchHistory (Rejected ''Failed to fetch'')
        \<lparr>stats = Some (3::nat), laneStats = Some [2::nat], history = [4::nat], loading = False, statsError = None\<rparr>
      = \<lparr>stats = Some 3, laneStats = Some [2], history = [4], loading = False, statsError = None\<rparr>
   \<and> fetchStats (Response 503 (Inr 7))
        \<lparr>stats = Some (3::nat), laneStats = Some [2::nat], history = [4::nat], loading = False, statsError = None\<rparr>
      = \<lparr>stats = Some 3, laneStats = Some [2], history = [4], loading = False,
         statsError = Some ''HTTP error! status: 503''\<rparr>
   \<and> fetchStats (Response 200 (Inr 9)) (fetchStats (Response 503 (Inr 7))
        \<lparr>stats = Some (3::nat), laneStats = Some [2::nat], history = [4::nat], loading = False, statsError = None\<rparr>)
      = \<lparr>stats = Some 9, laneStats = Some [2], history = [4], loading = False, statsError = None\<rparr>"
  using fetch_failures_kept_apart [where rl = "Response 500 (Inr [1::nat])"
      and rh = "Rejected ''Failed to fetch'' :: nat list fetched"
      and r = "Response 503 (Inr (7::nat))" and status = 200 and d = 9 and l = "[5::nat]"
      and s = "\<lparr>stats = Some (3::nat), laneStats = Some [2::nat], history = [4::nat], loading = False, statsError = None\<rparr>"]
  by (simp add: fetchStats_def fetchLaneStats_def fetchHistory_def ok_def decimal.simps digit_def)

section \<open>Derived statistics\<close>

lemma round_half: "\<bar>real_of_int \<lfloor>y + 1 / 2\<rfloor> - y\<bar> \<le> 1 / 2" for y :: real
  by linarith

lemma scaled_round:
  fixes a y p :: real
  assumes "0 < p" and "\<bar>a - y\<bar> \<le> 1 / 2"
  shows "\<bar>a / p - y / p\<bar> \<le> 1 / (2 * p)"
proof -
  have "a / p - y / p = (a - y) / p"
    by (simp add: diff_divide_distrib)
  then have "\<bar>a / p - y / p\<bar> = \<bar>a - y\<bar> / p"
    using assms(1) by simp
  also have "\<dots> \<le> (1 / 2) / p"
    using assms by (intro divide_right_mono) simp_all
  finally show ?thesis by simp
qed

lemma toFixed_error:
  assumes "\<bar>x\<bar> < 10 ^ 21"
  shows "\<exists>n. toFixed d (Finite x) = Fixed (x < 0) d n
     \<and> \<bar>(if x < 0 then - 1 else 1) * real n / 10 ^ d - x\<bar> \<le> 1 / (2 * 10 ^ d)"
proof -
  define n where "n = nat \<lfloor>\<bar>x\<bar> * 10 ^ d + 1 / 2\<rfloor>"
  have pos: "(0::real) < 10 ^ d" by simp
  have unscale: "\<bar>x\<bar> * 10 ^ d / 10 ^ d = \<bar>x\<bar>" by simp
  have "0 \<le> \<lfloor>\<bar>x\<bar> * 10 ^ d + 1 / 2\<rfloor>" by simp
  then have n: "real n = real_of_int \<lfloor>\<bar>x\<bar> * 10 ^ d + 1 / 2\<rfloor>"
    by (simp add: n_def)
  have "\<bar>real_of_int \<lfloor>\<bar>x\<bar> * 10 ^ d + 1 / 2\<rfloor> - \<bar>x\<bar> * 10 ^ d\<bar> \<le> 1 / 2"
    by (rule round_half)
  with pos have "\<bar>real_of_int \<lfloor>\<bar>x\<bar> * 10 ^ d + 1 / 2\<rfloor> / 10 ^ d - \<bar>x\<bar> * 10 ^ d / 10 ^ d\<bar>
      \<le> 1 / (2 * 10 ^ d)"
    by (rule scaled_round)
  then have close: "\<bar>real n / 10 ^ d - \<bar>x\<bar>\<bar> \<le> 1 / (2 * 10 ^ d)"
    by (simp only: unscale n)
  have "\<bar>(if x < 0 then - 1 else 1) * real n / 10 ^ d - x\<bar> \<le> 1 / (2 * 10 ^ d)"
  proof (cases "x < 0")
    case True
    then have "\<bar>(if x < 0 then - 1 else 1) * real n / 10 ^ d - x\<bar> = \<bar>real n / 10 ^ d - \<bar>x\<bar>\<bar>"
      by simp
    with close show ?thesis by simp
  next
    case False
    then have "\<bar>(if x < 0 then - 1 else 1) * real n / 10 ^ d - x\<bar> = \<bar>real n / 10 ^ d - \<bar>x\<bar>\<bar>"
      by simp
    with close show ?thesis by simp
  qed
  moreover from assms have "toFixed d (Finite x) = Fixed (x < 0) d n"
    by (simp add: n_def)
  ultimately show ?thesis by blast
qed

lemma rnd_23_80: "rnd (23 / 80) = 5179139571476070 / 2 ^ 54"
  by (subst rnd_eval [where k = "- 2"]) (simp_all add: pow2_def roundHalfEven_def)

lemma rnd_23_80_100: "rnd (5179139571476070 / 2 ^ 54 * 100) = 8092405580431359 / 2 ^ 48"
  by (subst rnd_eval [where k = 4]) (simp_all add: pow2_def roundHalfEven_def)

lemma rnd_3_40: "rnd (3 / 40) = 5404319552844595 / 2 ^ 56"
  by (subst rnd_eval [where k = "- 4"]) (simp_all add: pow2_def roundHalfEven_def)

lemma quotient_23_80: "jsdiv (Finite 23) (Finite 80) = Finite (5179139571476070 / 2 ^ 54)"
  by (simp only: jsdiv.simps round64_def rnd_23_80) simp

lemma percent_23_80:
  "jsmul (Finite (5179139571476070 / 2 ^ 54)) (Finite 100) = Finite (8092405580431359 / 2 ^ 48)"
  by (simp only: jsmul.simps round64_def rnd_23_80_100) simp

lemma quotient_3_40: "jsdiv (Finite 3) (Finite 40) = Finite (5404319552844595 / 2 ^ 56)"
  by (simp only: jsdiv.simps round64_def rnd_3_40) simp

lemma rate_23_80:
  "toFixed 1 (jsmul (jsdiv (Finite 23) (Finite 80)) (Finite 100)) = Fixed False 1 287"
  by (simp only: quotient_23_80 percent_23_80) simp

lemma lanes_3_40: "toFixed 2 (jsdiv (Finite 3) (Finite 40)) = Fixed False 2 7"
  by (simp only: quotient_3_40) simp

text \<open>
  C10, as stated, fails: for 23 successes in 80 crossings \<open>successRate\<close> is the string
  \<open>28.7\<close>, not the number \<open>(23 / 80) * 100 = 28.75\<close>, and \<open>averageLanes\<close> for 3 lanes in 40
  rounds is the string \<open>0.07\<close>, not \<open>3 / 40 = 0.075\<close>.
\<close>

theorem success_rate_is_rounded:
  "map_option successRate (derivedStats (Some
      \<lparr>totalCrossings = Some (Finite 80), successfulCrossings = Some (Finite 23),
       totalRounds = Some (Finite 40), totalLanesCrossed = Some (Finite 3)\<rparr>))
     = Some (Str (Fixed False 1 287))
   \<and> map_option successRate (derivedStats (Some
      \<lparr>totalCrossings = Some (Finite 80), successfulCrossings = Some (Finite 23),
       totalRounds = Some (Finite 40), totalLanesCrossed = Some (Finite 3)\<rparr>))
     \<noteq> Some (Num (Finite ((23 / 80) * 100)))
   \<and> fixedValue (Fixed False 1 287) \<noteq> Some ((23 / 80) * 100)
   \<and> map_option averageLanes (derivedStats (Some
      \<lparr>totalCrossings = Some (Finite 80), successfulCrossings = Some (Finite 23),
       totalRounds = Some (Finite 40), totalLanesCrossed = Some (Finite 3)\<rparr>))
     = Some (Str (Fixed False 2 7))
   \<and> fixedValue (Fixed False 2 7) \<noteq> Some (3 / 40)"
  by (simp add: derivedStats_def stats_snapshot.extend_def derived_stats.fields_def
      rate_23_80 lanes_3_40 del: jsdiv.simps jsmul.simps toFixed.simps One_nat_def)

lemma rnd_percent_normal:
  "rnd (64739244643450875 / 2251799813685248) = 8092405580431359 / 2 ^ 48"
  by (subst rnd_eval [where k = 4]) (simp_all add: pow2_def roundHalfEven_def)

lemma successRate_finite:
  assumes "totalCrossings v = Some (Finite t)" and "successfulCrossings v = Some (Finite s)"
    and "0 < t" and "\<bar>rnd (s / t)\<bar> < 2 ^ 1024" and "\<bar>rnd (rnd (s / t) * 100)\<bar> < 10 ^ 21"
  shows "map_option successRate (derivedStats (Some v))
     = Some (Str (Fixed (rnd (rnd (s / t) * 100) < 0) 1
         (nat \<lfloor>\<bar>rnd (rnd (s / t) * 100)\<bar> * 10 + 1 / 2\<rfloor>)))"
proof -
  from assms(3,4) have q: "jsdiv (Finite s) (Finite t) = Finite (rnd (s / t))"
    by (simp add: round64_def)
  have "(10::real) ^ 21 < 2 ^ 1024" by simp
  with assms(5) have "\<bar>rnd (rnd (s / t) * 100)\<bar> < 2 ^ 1024" by linarith
  then have p: "jsmul (Finite (rnd (s / t))) (Finite 100) = Finite (rnd (rnd (s / t) * 100))"
    by (simp add: round64_def)
  from assms(5) have f: "toFixed 1 (Finite (rnd (rnd (s / t) * 100)))
      = Fixed (rnd (rnd (s / t) * 100) < 0) 1 (nat \<lfloor>\<bar>rnd (rnd (s / t) * 100)\<bar> * 10 + 1 / 2\<rfloor>)"
    by simp
  from assms(1,2,3) show ?thesis
    by (simp add: derivedStats_def stats_snapshot.extend_def derived_stats.fields_def q p f
        del: jsdiv.simps jsmul.simps toFixed.simps One_nat_def)
qed

lemma averageLanes_finite:
  assumes "totalRounds v = Some (Finite r)" and "totalLanesCrossed v = Some (Finite l)"
    and "0 < r" and "\<bar>rnd (l / r)\<bar> < 10 ^ 21"
  shows "map_option averageLanes (derivedStats (Some v))
     = Some (Str (Fixed (rnd (l / r) < 0) 2 (nat \<lfloor>\<bar>rnd (l / r)\<bar> * 100 + 1 / 2\<rfloor>)))"
proof -
  have "(10::real) ^ 21 < 2 ^ 1024" by simp
  with assms(4) have "\<bar>rnd (l / r)\<bar> < 2 ^ 1024" by linarith
  with assms(3) have q: "jsdiv (Finite l) (Finite r) = Finite (rnd (l / r))"
    by (simp add: round64_def)
  from assms(4) have f: "toFixed 2 (Finite (rnd (l / r)))
      = Fixed (rnd (l / r) < 0) 2 (nat \<lfloor>\<bar>rnd (l / r)\<bar> * 100 + 1 / 2\<rfloor>)"
    by simp
  from assms(1,2,3) show ?thesis
    by (simp add: derivedStats_def stats_snapshot.extend_def derived_stats.fields_def q f
        del: jsdiv.simps jsmul.simps toFixed.simps)
qed

text \<open>
  C10, amended. Without a snapshot there are no derived stats. With one, \<open>successRate\<close> is
  the string \<open>((successfulCrossings / totalCrossings) * 100).toFixed(1)\<close> only when
  \<open>totalCrossings > 0\<close> and the number 0 otherwise (also when \<open>totalCrossings\<close> is
  missing); \<open>averageLanes\<close> is the string \<open>(totalLanesCrossed / totalRounds).toFixed(2)\<close>
  only when \<open>totalRounds > 0\<close> and the number 0 otherwise; the snapshot's own properties
  are kept. The quotient and the product are binary64 results: for finite operands
  below the overflow the string spells \<open>rnd (rnd (s / t) * 100)\<close> rounded to one digit,
  and \<open>rnd (l / r)\<close> rounded to two; with the numerator missing it is \<open>NaN\<close>. A \<open>toFixed\<close>
  string with \<open>d\<close> digits is within \<open>1 / (2 * 10 ^ d)\<close> of the number it formats.
\<close>

theorem derived_stats_guarded:
  "derivedStats None = None
   \<and> (gtZero (toNumber (totalCrossings v)) \<longrightarrow>
        map_option successRate (derivedStats (Some v))
          = Some (Str (toFixed 1
              (jsmul (jsdiv (toNumber (successfulCrossings v)) (toNumber (totalCrossings v)))
                 (Finite 100)))))
   \<and> (\<not> gtZero (toNumber (totalCrossings v)) \<longrightarrow>
        map_option successRate (derivedStats (Some v)) = Some (Num (Finite 0)))
   \<and> (gtZero (toNumber (totalRounds v)) \<longrightarrow>
        map_option averageLanes (derivedStats (Some v))
          = Some (Str (toFixed 2
              (jsdiv (toNumber (totalLanesCrossed v)) (toNumber (totalRounds v))))))
   \<and> (\<not> gtZero (toNumber (totalRounds v)) \<longrightarrow>
        map_option averageLanes (derivedStats (Some v)) = Some (Num (Finite 0)))
   \<and> map_option stats_snapshot.truncate (derivedStats (Some v)) = Some v
   \<and> (totalCrossings v = Some (Finite t) \<and> successfulCrossings v = Some (Finite s) \<and> 0 < t
        \<and> \<bar>rnd (s / t)\<bar> < 2 ^ 1024 \<and> \<bar>rnd (rnd (s / t) * 100)\<bar> < 10 ^ 21 \<longrightarrow>
        map_option successRate (derivedStats (Some v))
          = Some (Str (Fixed (rnd (rnd (s / t) * 100) < 0) 1
              (nat \<lfloor>\<bar>rnd (rnd (s / t) * 100)\<bar> * 10 + 1 / 2\<rfloor>))))
   \<and> (totalRounds v = Some (Finite r) \<and> totalLanesCrossed v = Some (Finite l) \<and> 0 < r
        \<and> \<bar>rnd (l / r)\<bar> < 10 ^ 21 \<longrightarrow>
        map_option averageLanes (derivedStats (Some v))
          = Some (Str (Fixed (rnd (l / r) < 0) 2 (nat \<lfloor>\<bar>rnd (l / r)\<bar> * 100 + 1 / 2\<rfloor>))))
   \<and> (gtZero (toNumber (totalCrossings v)) \<and> successfulCrossings v = None \<longrightarrow>
        map_option successRate (derivedStats (Some v)) = Some (Str (Literal ''NaN'')))
   \<and> (gtZero (toNumber (totalRounds v)) \<and> totalLanesCrossed v = None \<longrightarrow>
        map_option averageLanes (derivedStats (Some v)) = Some (Str (Literal ''NaN'')))
   \<and> (\<bar>x\<bar> < 10 ^ 21 \<longrightarrow>
        (\<exists>n. toFixed d (Finite x) = Fixed (x < 0) d n
           \<and> \<bar>(if x < 0 then - 1 else 1) * real n / 10 ^ d - x\<bar> \<le> 1 / (2 * 10 ^ d)))"
proof -
  have a: "derivedStats None = None"
    by (simp add: derivedStats_def)
  have b: "map_option successRate (derivedStats (Some v))
      = Some (if gtZero (toNumber (totalCrossings v))
              then Str (toFixed 1
                (jsmul (jsdiv (toNumber (successfulCrossings v)) (toNumber (totalCrossings v)))
                   (Finite 100)))
              else Num (Finite 0))"
    by (simp add: derivedStats_def stats_snapshot.extend_def derived_stats.fields_def
        del: jsdiv.simps jsmul.simps toFixed.simps)
  have c: "map_option averageLanes (derivedStats (Some v))
      = Some (if gtZero (toNumber (totalRounds v))
              then Str (toFixed 2 (jsdiv (toNumber (totalLanesCrossed v)) (toNumber (totalRounds v))))
              else Num (Finite 0))"
    by (simp add: derivedStats_def stats_snapshot.extend_def derived_stats.fields_def
        del: jsdiv.simps jsmul.simps toFixed.simps)
  have d: "map_option stats_snapshot.truncate (derivedStats (Some v)) = Some v"
    by (simp add: derivedStats_def stats_snapshot.extend_def derived_stats.fields_def
        stats_snapshot.truncate_def)
  have e: "map_option successRate (derivedStats (Some v)) = Some (Str (Literal ''NaN''))"
    if "gtZero (toNumber (totalCrossings v))" "successfulCrossings v = None"
    using that by (simp add: b)
  have f: "map_option averageLanes (derivedStats (Some v)) = Some (Str (Literal ''NaN''))"
    if "gtZero (toNumber (totalRounds v))" "totalLanesCrossed v = None"
    using that by (simp add: c)
  have b1: "map_option successRate (derivedStats (Some v))
          = Some (Str (toFixed 1
              (jsmul (jsdiv (toNumber (successfulCrossings v)) (toNumber (totalCrossings v)))
                 (Finite 100))))"
    if "gtZero (toNumber (totalCrossings v))"
    using that by (simp only: b if_True)
  have b2: "map_option successRate (derivedStats (Some v)) = Some (Num (Finite 0))"
    if "\<not> gtZero (toNumber (totalCrossings v))"
    using that by (simp only: b if_False)
  have c1: "map_option averageLanes (derivedStats (Some v))
          = Some (Str (toFixed 2
              (jsdiv (toNumber (totalLanesCrossed v)) (toNumber (totalRounds v)))))"
    if "gtZero (toNumber (totalRounds v))"
    using that by (simp only: c if_True)
  have c2: "map_option averageLanes (derivedStats (Some v)) = Some (Num (Finite 0))"
    if "\<not> gtZero (toNumber (totalRounds v))"
    using that by (simp only: c if_False)
  note g = successRate_finite [of v t s]
  note h = averageLanes_finite [of v r l]
  note i = toFixed_error [of x d]
  from a b1 b2 c1 c2 d e f g h i show ?thesis by blast
qed

theorem derived_stats_guarded_witness:
  "gtZero (toNumber (totalCrossings
      \<lparr>totalCrossings = Some (Finite 80), successfulCrossings = Some (Finite 23),
       totalRounds = Some (Finite 40), totalLanesCrossed = Some (Finite 3)\<rparr>))
   \<and> gtZero (toNumber (totalRounds
      \<lparr>totalCrossings = Some (Finite 80), successfulCrossings = Some (Finite 23),
       totalRounds = Some (Finite 40), totalLanesCrossed = Some (Finite 3)\<rparr>))
   \<and> (0::real) < 80 \<and> \<bar>rnd (23 / 80)\<bar> < 2 ^ 1024 \<and> \<bar>rnd (rnd (23 / 80) * 100)\<bar> < 10 ^ 21
   \<and> (0::real) < 40 \<and> \<bar>rnd (3 / 40)\<bar> < 10 ^ 21
   \<and> map_option successRate (derivedStats (Some
        \<lparr>totalCrossings = Some (Finite 80), successfulCrossings = Some (Finite 23),
         totalRounds = Some (Finite 40), totalLanesCrossed = Some (Finite 3)\<rparr>))
      = Some (Str (Fixed False 1 287))
   \<and> map_option averageLanes (derivedStats (Some
        \<lparr>totalCrossings = Some (Finite 80), successfulCrossings = Some (Finite 23),
         totalRounds = Some (Finite 40), totalLanesCrossed = Some (Finite 3)\<rparr>))
      = Some (Str (Fixed False 2 7))
   \<and> \<not> gtZero (toNumber (totalCrossings
      \<lparr>totalCrossings = Some (Finite 0), successfulCrossings = Some (Finite 0),
       totalRounds = None, totalLanesCrossed = None\<rparr>))
   \<and> \<not> gtZero (toNumber (totalRounds
      \<lparr>totalCrossings = Some (Finite 0), successfulCrossings = Some (Finite 0),
       totalRounds = None, totalLanesCrossed = None\<rparr>))
   \<and> map_option successRate (derivedStats (Some
        \<lparr>totalCrossings = Some (Finite 0), successfulCrossings = Some (Finite 0),
         totalRounds = None, totalLanesCrossed = None\<rparr>))
      = Some (Num (Finite 0))
   \<and> map_option averageLanes (derivedStats (Some
        \<lparr>totalCrossings = Some (Finite 0), successfulCrossings = Some (Finite 0),
         totalRounds = None, totalLanesCrossed = None\<rparr>))
      = Some (Num (Finite 0))
   \<and> gtZero (toNumber (totalCrossings
      \<lparr>totalCrossings = Some (Finite 80), successfulCrossings = None,
       totalRounds = Some (Finite 40), totalLanesCrossed = None\<rparr>))
   \<and> map_option successRate (derivedStats (Some
        \<lparr>totalCrossings = Some (Finite 80), successfulCrossings = None,
         totalRounds = Some (Finite 40), totalLanesCrossed = None\<rparr>))
      = Some (Str (Literal ''NaN''))
   \<and> map_option averageLanes (derivedStats (Some
        \<lparr>totalCrossings = Some (Finite 80), successfulCrossings = None,
         totalRounds = Some (Finite 40), totalLanesCrossed = None\<rparr>))
      = Some (Str (Literal ''NaN''))
   \<and> \<bar>3 / 40 :: real\<bar> < 10 ^ 21
   \<and> toFixed 2 (Finite (3 / 40)) = Fixed False 2 8"
  using derived_stats_guarded [where v = "\<lparr>totalCrossings = Some (Finite 80), successfulCrossings = Some (Finite 23),
         totalRounds = Some (Finite 40), totalLanesCrossed = Some (Finite 3)\<rparr>"
      and t = 80 and s = 23 and r = 40 and l = 3 and x = "3 / 40" and d = 2]
    derived_stats_guarded [where v = "\<lparr>totalCrossings = Some (Finite 0), successfulCrossings = Some (Finite 0),
         totalRounds = None, totalLanesCrossed = None\<rparr>"
      and t = 80 and s = 23 and r = 40 and l = 3 and x = "3 / 40" and d = 2]
    derived_stats_guarded [where v = "\<lparr>totalCrossings = Some (Finite 80), successfulCrossings = None,
         totalRounds = Some (Finite 40), totalLanesCrossed = None\<rparr>"
      and t = 80 and s = 23 and r = 40 and l = 3 and x = "3 / 40" and d = 2]
  by (simp add: rnd_23_80 rnd_percent_normal rnd_3_40 rate_23_80 lanes_3_40
      del: jsdiv.simps jsmul.simps One_nat_def)

end
